theory Spec2Isabelle
  imports Main "HOL-Library.AList" "HOL-Library.Char_ord" "HOL-Library.List_Lexorder"
    "HOL-Library.Sublist" "HOL-Library.Multiset"
begin

section \<open>JSON documents and Python values\<close>

text \<open>
  The session manager of \<^verbatim>\<open>session_manager.py\<close> keeps two JSON files,
  \<^verbatim>\<open>sessions.json\<close> and \<^verbatim>\<open>summaries.json\<close>. A JSON text is modelled by its syntax
  tree; an object is the list of its members in textual order. The same type serves for
  the Python value that \<^verbatim>\<open>json.load\<close> returns: there an object is a \<^verbatim>\<open>dict\<close>, that is
  a member list with distinct keys in insertion order. Numbers are Python's unbounded
  integers; numbers with a fraction are outside the model.
\<close>

datatype json =
    JNull
  | JBool bool
  | JNum int
  | JStr string
  | JArr "json list"
  | JObj "(string \<times> json) list"

datatype py_error =
    OSError | JSONDecodeError | TypeError | AttributeError | KeyError | ValueError
  | SummarizerError

text \<open>
  \<^verbatim>\<open>dict(pairs)\<close>: a key that occurs again keeps its first position and takes the
  later value. \<open>AList.update\<close> is exactly \<^verbatim>\<open>d[k] = v\<close> on an insertion-ordered dict.
\<close>

definition dict_of_pairs :: "(string \<times> json) list \<Rightarrow> (string \<times> json) list" where
  "dict_of_pairs ps = foldl (\<lambda>d kv. AList.update (fst kv) (snd kv) d) [] ps"

text \<open>What \<^verbatim>\<open>json.load\<close> builds from a JSON text: every object becomes a dict.\<close>

primrec json_decode :: "json \<Rightarrow> json" where
  "json_decode JNull = JNull"
| "json_decode (JBool b) = JBool b"
| "json_decode (JNum n) = JNum n"
| "json_decode (JStr s) = JStr s"
| "json_decode (JArr xs) = JArr (map json_decode xs)"
| "json_decode (JObj ps) = JObj (dict_of_pairs (map (map_prod id json_decode) ps))"

subsection \<open>The Python operations the source applies to loaded values\<close>

definition dict_get :: "(string \<times> json) list \<Rightarrow> string \<Rightarrow> json \<Rightarrow> json" where
  "dict_get r k dflt = (case map_of r k of Some v \<Rightarrow> v | None \<Rightarrow> dflt)"

text \<open>\<^verbatim>\<open>x.get(k, default)\<close>: only a dict has the method.\<close>

definition py_get :: "json \<Rightarrow> string \<Rightarrow> json \<Rightarrow> py_error + json" where
  "py_get j k dflt = (case j of JObj r \<Rightarrow> Inr (dict_get r k dflt) | _ \<Rightarrow> Inl AttributeError)"

text \<open>\<^verbatim>\<open>k in x\<close> for a string \<open>k\<close>: key of a dict, element of a list, substring of a string.\<close>

definition py_in :: "string \<Rightarrow> json \<Rightarrow> py_error + bool" where
  "py_in k j = (case j of
       JObj d \<Rightarrow> Inr (k \<in> set (map fst d))
     | JArr xs \<Rightarrow> Inr (JStr k \<in> set xs)
     | JStr t \<Rightarrow> Inr (sublist k t)
     | _ \<Rightarrow> Inl TypeError)"

text \<open>\<^verbatim>\<open>x[k]\<close>, \<^verbatim>\<open>x[k] = v\<close> and \<^verbatim>\<open>del x[k]\<close> for a string \<open>k\<close>.\<close>

definition py_getitem :: "string \<Rightarrow> json \<Rightarrow> py_error + json" where
  "py_getitem k j = (case j of
       JObj d \<Rightarrow> (case map_of d k of Some v \<Rightarrow> Inr v | None \<Rightarrow> Inl KeyError)
     | _ \<Rightarrow> Inl TypeError)"

definition py_setitem :: "string \<Rightarrow> json \<Rightarrow> json \<Rightarrow> py_error + json" where
  "py_setitem k v j = (case j of
       JObj d \<Rightarrow> Inr (JObj (AList.update k v d))
     | _ \<Rightarrow> Inl TypeError)"

definition py_delitem :: "string \<Rightarrow> json \<Rightarrow> py_error + json" where
  "py_delitem k j = (case j of
       JObj d \<Rightarrow> (if k \<in> set (map fst d) then Inr (JObj (AList.delete k d)) else Inl KeyError)
     | _ \<Rightarrow> Inl TypeError)"

text \<open>\<^verbatim>\<open>x.pop(k, None)\<close> for a string \<open>k\<close>.\<close>

definition py_pop :: "string \<Rightarrow> json \<Rightarrow> py_error + json" where
  "py_pop k j = (case j of
       JObj d \<Rightarrow> Inr (JObj (AList.delete k d))
     | JArr xs \<Rightarrow> Inl TypeError
     | _ \<Rightarrow> Inl AttributeError)"

definition py_len :: "json \<Rightarrow> py_error + nat" where
  "py_len j = (case j of
       JObj d \<Rightarrow> Inr (length d)
     | JArr xs \<Rightarrow> Inr (length xs)
     | JStr s \<Rightarrow> Inr (length s)
     | _ \<Rightarrow> Inl TypeError)"

definition py_keys :: "json \<Rightarrow> py_error + string list" where
  "py_keys j = (case j of JObj d \<Rightarrow> Inr (map fst d) | _ \<Rightarrow> Inl AttributeError)"

definition py_values :: "json \<Rightarrow> py_error + json list" where
  "py_values j = (case j of JObj d \<Rightarrow> Inr (map snd d) | _ \<Rightarrow> Inl AttributeError)"

definition py_items :: "json \<Rightarrow> py_error + (string \<times> json) list" where
  "py_items j = (case j of JObj d \<Rightarrow> Inr d | _ \<Rightarrow> Inl AttributeError)"

text \<open>Truth value of a loaded value, as \<^verbatim>\<open>if x:\<close> tests it.\<close>

definition truthy :: "json \<Rightarrow> bool" where
  "truthy j = (case j of
       JNull \<Rightarrow> False
     | JBool b \<Rightarrow> b
     | JNum n \<Rightarrow> n \<noteq> 0
     | JStr s \<Rightarrow> s \<noteq> []
     | JArr xs \<Rightarrow> xs \<noteq> []
     | JObj d \<Rightarrow> d \<noteq> [])"

text \<open>\<^verbatim>\<open>xs[:k]\<close>: a negative bound counts from the end.\<close>

definition py_slice_to :: "int \<Rightarrow> 'a list \<Rightarrow> 'a list" where
  "py_slice_to k xs = (if 0 \<le> k then take (nat k) xs else take (nat (int (length xs) + k)) xs)"

text \<open>
  \<^verbatim>\<open>xs.sort(key=f, reverse=True)\<close>: descending, and elements with equal keys keep their
  original order. \<open>sort_key\<close> is the stable ascending insertion sort.
\<close>

definition py_sort_desc :: "('a \<Rightarrow> 'k::linorder) \<Rightarrow> 'a list \<Rightarrow> 'a list" where
  "py_sort_desc f xs = rev (sort_key f (rev xs))"

text \<open>A loop body that may raise, run over a list: the first exception ends the loop.\<close>

primrec traverse :: "('a \<Rightarrow> py_error + 'b) \<Rightarrow> 'a list \<Rightarrow> py_error + 'b list" where
  "traverse f [] = Inr []"
| "traverse f (x # xs) =
     (case f x of
        Inl e \<Rightarrow> Inl e
      | Inr y \<Rightarrow> (case traverse f xs of Inl e \<Rightarrow> Inl e | Inr ys \<Rightarrow> Inr (y # ys)))"

text \<open>\<^verbatim>\<open>except Exception: return d\<close> around a body.\<close>

definition except_return :: "'a \<Rightarrow> py_error + 'a \<Rightarrow> py_error + 'a" where
  "except_return d r = (case r of Inl e \<Rightarrow> Inr d | Inr x \<Rightarrow> Inr x)"

section \<open>The data model of \<^verbatim>\<open>models.py\<close>\<close>

text \<open>
  Modelled from the spec: the classes \<^verbatim>\<open>Message\<close>, \<^verbatim>\<open>ChatSession\<close> and \<^verbatim>\<open>SessionSummary\<close>
  are imported from \<^verbatim>\<open>models.py\<close>, which is not part of the sources at hand. Their
  fields are those of the spec's data model. A datetime is a count of clock ticks.
\<close>

type_synonym datetime = nat

datatype role = User | Assistant | System

record message =
  role :: role
  content :: string
  timestamp :: datetime

record session_summary =
  session_id :: string
  summary :: string
  message_count :: int
  start_time :: datetime
  end_time :: datetime

record chat_session =
  session_id :: string
  messages :: "message list"
  start_time :: datetime
  is_active :: bool
  memory_enabled :: bool
  previous_summaries :: "session_summary list"

subsection \<open>Timestamps as text\<close>

text \<open>
  Modelled from the spec: the textual form of a timestamp, which \<^verbatim>\<open>models.py\<close> chooses, is
  only known to be round-trippable and to sort like the timestamps. Here it is the decimal
  numeral of the tick count, padded with zeros to twenty digits.
\<close>

definition digit_char :: "nat \<Rightarrow> char" where
  "digit_char d = char_of (48 + d)"

definition is_digit :: "char \<Rightarrow> bool" where
  "is_digit c = (48 \<le> (of_char c :: nat) \<and> (of_char c :: nat) \<le> 57)"

definition digit_val :: "char \<Rightarrow> nat" where
  "digit_val c = of_char c - 48"

fun decimal :: "nat \<Rightarrow> string" where
  "decimal n = (if n < 10 then [digit_char n] else decimal (n div 10) @ [digit_char (n mod 10)])"

declare decimal.simps [simp del]

definition ts_to_text :: "datetime \<Rightarrow> string" where
  "ts_to_text t = replicate (20 - length (decimal t)) (CHR ''0'') @ decimal t"

definition ts_of_text :: "string \<Rightarrow> datetime option" where
  "ts_of_text s =
     (if s \<noteq> [] \<and> list_all is_digit s
      then Some (foldl (\<lambda>a c. 10 * a + digit_val c) 0 s) else None)"

subsection \<open>Records to dicts and back\<close>

text \<open>Reading a field of a given type out of a record dict; the ways it can raise.\<close>

definition get_str :: "json \<Rightarrow> string \<Rightarrow> py_error + string" where
  "get_str j k = (case py_getitem k j of
       Inl e \<Rightarrow> Inl e
     | Inr (JStr s) \<Rightarrow> Inr s
     | Inr _ \<Rightarrow> Inl TypeError)"

definition get_int :: "json \<Rightarrow> string \<Rightarrow> py_error + int" where
  "get_int j k = (case py_getitem k j of
       Inl e \<Rightarrow> Inl e
     | Inr (JNum n) \<Rightarrow> Inr n
     | Inr _ \<Rightarrow> Inl TypeError)"

definition get_bool :: "json \<Rightarrow> string \<Rightarrow> py_error + bool" where
  "get_bool j k = (case py_getitem k j of
       Inl e \<Rightarrow> Inl e
     | Inr (JBool b) \<Rightarrow> Inr b
     | Inr _ \<Rightarrow> Inl TypeError)"

definition get_list :: "json \<Rightarrow> string \<Rightarrow> py_error + json list" where
  "get_list j k = (case py_getitem k j of
       Inl e \<Rightarrow> Inl e
     | Inr (JArr xs) \<Rightarrow> Inr xs
     | Inr _ \<Rightarrow> Inl TypeError)"

definition get_time :: "json \<Rightarrow> string \<Rightarrow> py_error + datetime" where
  "get_time j k = (case get_str j k of
       Inl e \<Rightarrow> Inl e
     | Inr s \<Rightarrow> (case ts_of_text s of None \<Rightarrow> Inl ValueError | Some t \<Rightarrow> Inr t))"

definition then_do :: "py_error + 'a \<Rightarrow> ('a \<Rightarrow> py_error + 'b) \<Rightarrow> py_error + 'b" where
  "then_do m f = (case m of Inl e \<Rightarrow> Inl e | Inr x \<Rightarrow> f x)"

text \<open>Modelled from the spec: the three role names of \<^verbatim>\<open>Message\<close>, absent with \<^verbatim>\<open>models.py\<close>.\<close>

definition role_to_text :: "role \<Rightarrow> string" where
  "role_to_text r = (case r of User \<Rightarrow> ''user'' | Assistant \<Rightarrow> ''assistant'' | System \<Rightarrow> ''system'')"

definition role_of_text :: "string \<Rightarrow> py_error + role" where
  "role_of_text s =
     (if s = ''user'' then Inr User
      else if s = ''assistant'' then Inr Assistant
      else if s = ''system'' then Inr System
      else Inl ValueError)"

text \<open>
  Modelled from the spec: \<^verbatim>\<open>Message.to_dict\<close> and \<^verbatim>\<open>Message.from_dict\<close> of the absent
  \<^verbatim>\<open>models.py\<close>, with the persisted layout \<open>{role, content, timestamp}\<close>.
\<close>

definition message_to_dict :: "message \<Rightarrow> json" where
  "message_to_dict m = JObj
     [(''role'', JStr (role_to_text (role m))),
      (''content'', JStr (content m)),
      (''timestamp'', JStr (ts_to_text (timestamp m)))]"

definition message_from_dict :: "json \<Rightarrow> py_error + message" where
  "message_from_dict j =
     then_do (get_str j ''role'') (\<lambda>rt.
     then_do (role_of_text rt) (\<lambda>r.
     then_do (get_str j ''content'') (\<lambda>c.
     then_do (get_time j ''timestamp'') (\<lambda>t.
       Inr \<lparr> role = r, content = c, timestamp = t \<rparr>))))"

text \<open>
  Modelled from the spec: \<^verbatim>\<open>SessionSummary.to_dict\<close> and \<^verbatim>\<open>SessionSummary.from_dict\<close> of
  the absent \<^verbatim>\<open>models.py\<close>, with the persisted layout
  \<open>{session_id, summary, message_count, start_time, end_time}\<close>.
\<close>

definition summary_to_dict :: "session_summary \<Rightarrow> json" where
  "summary_to_dict x = JObj
     [(''session_id'', JStr (session_summary.session_id x)),
      (''summary'', JStr (summary x)),
      (''message_count'', JNum (message_count x)),
      (''start_time'', JStr (ts_to_text (session_summary.start_time x))),
      (''end_time'', JStr (ts_to_text (end_time x)))]"

definition summary_from_dict :: "json \<Rightarrow> py_error + session_summary" where
  "summary_from_dict j =
     then_do (get_str j ''session_id'') (\<lambda>sid.
     then_do (get_str j ''summary'') (\<lambda>txt.
     then_do (get_int j ''message_count'') (\<lambda>n.
     then_do (get_time j ''start_time'') (\<lambda>st.
     then_do (get_time j ''end_time'') (\<lambda>et.
       Inr \<lparr> session_summary.session_id = sid, summary = txt, message_count = n,
             session_summary.start_time = st, end_time = et \<rparr>)))))"

text \<open>
  Modelled from the spec: \<^verbatim>\<open>ChatSession.to_dict\<close> and \<^verbatim>\<open>ChatSession.from_dict\<close> of the
  absent \<^verbatim>\<open>models.py\<close>, with the persisted layout
  \<open>{session_id, messages, start_time, is_active, memory_enabled, previous_summaries}\<close>.
\<close>

definition session_to_dict :: "chat_session \<Rightarrow> json" where
  "session_to_dict s = JObj
     [(''session_id'', JStr (chat_session.session_id s)),
      (''messages'', JArr (map message_to_dict (messages s))),
      (''start_time'', JStr (ts_to_text (chat_session.start_time s))),
      (''is_active'', JBool (is_active s)),
      (''memory_enabled'', JBool (memory_enabled s)),
      (''previous_summaries'', JArr (map summary_to_dict (previous_summaries s)))]"

definition session_from_dict :: "json \<Rightarrow> py_error + chat_session" where
  "session_from_dict j =
     then_do (get_str j ''session_id'') (\<lambda>sid.
     then_do (get_list j ''messages'') (\<lambda>ms.
     then_do (traverse message_from_dict ms) (\<lambda>msgs.
     then_do (get_time j ''start_time'') (\<lambda>st.
     then_do (get_bool j ''is_active'') (\<lambda>act.
     then_do (get_bool j ''memory_enabled'') (\<lambda>mem.
     then_do (get_list j ''previous_summaries'') (\<lambda>ps.
     then_do (traverse summary_from_dict ps) (\<lambda>prev.
       Inr \<lparr> chat_session.session_id = sid, messages = msgs,
             chat_session.start_time = st, is_active = act, memory_enabled = mem,
             previous_summaries = prev \<rparr>))))))))"

section \<open>Storage\<close>

text \<open>
  A storage file is missing, holds something that cannot be read or parsed as JSON, or
  holds a JSON text. A write opens the file with mode \<^verbatim>\<open>'w'\<close> and dumps into it: it
  succeeds, or it fails at \<^verbatim>\<open>open\<close> (the file keeps its content), or it fails during the
  dump (the file was truncated by then and no longer parses).
\<close>

datatype storage_file = Missing | Garbage | Doc json

datatype write_fault = NoFault | OpenFails | DumpFails

record world =
  sessions_file :: storage_file
  summaries_file :: storage_file
  sessions_fault :: write_fault
  summaries_fault :: write_fault

definition read_json :: "storage_file \<Rightarrow> py_error + json" where
  "read_json f = (case f of
       Missing \<Rightarrow> Inl OSError
     | Garbage \<Rightarrow> Inl JSONDecodeError
     | Doc j \<Rightarrow> Inr (json_decode j))"

definition write_json :: "write_fault \<Rightarrow> storage_file \<Rightarrow> json \<Rightarrow> (py_error + unit) \<times> storage_file" where
  "write_json flt old v = (case flt of
       NoFault \<Rightarrow> (Inr (), Doc v)
     | OpenFails \<Rightarrow> (Inl OSError, old)
     | DumpFails \<Rightarrow> (Inl OSError, Garbage))"

definition write_sessions :: "json \<Rightarrow> world \<Rightarrow> (py_error + unit) \<times> world" where
  "write_sessions v w =
     (case write_json (sessions_fault w) (sessions_file w) v of
        (r, f) \<Rightarrow> (r, w\<lparr>sessions_file := f\<rparr>))"

definition write_summaries :: "json \<Rightarrow> world \<Rightarrow> (py_error + unit) \<times> world" where
  "write_summaries v w =
     (case write_json (summaries_fault w) (summaries_file w) v of
        (r, f) \<Rightarrow> (r, w\<lparr>summaries_file := f\<rparr>))"

text \<open>
  The common body of \<^verbatim>\<open>_load_sessions\<close> and \<^verbatim>\<open>_load_summaries\<close>: an absent file is an
  empty dict, and so is a file whose reading raises.
\<close>

definition load_collection :: "storage_file \<Rightarrow> json" where
  "load_collection f =
     (if f \<noteq> Missing
      then (case read_json f of Inl e \<Rightarrow> JObj [] | Inr v \<Rightarrow> v)
      else JObj [])"

definition load_sessions :: "world \<Rightarrow> json" where
  "load_sessions w = load_collection (sessions_file w)"

definition load_summaries :: "world \<Rightarrow> json" where
  "load_summaries w = load_collection (summaries_file w)"

section \<open>The session manager\<close>

text \<open>
  The summarizer (\<^verbatim>\<open>llm_service.py\<close>, outside the sources at hand) is a parameter: given
  the session it returns the summary text or raises.
\<close>

record session_manager =
  storage_path :: string
  llm_service :: "chat_session \<Rightarrow> py_error + string"

subsection \<open>Summaries\<close>

definition load_all_summaries_try :: "world \<Rightarrow> py_error + session_summary list" where
  "load_all_summaries_try w =
     then_do (py_values (load_summaries w)) (\<lambda>vals.
     then_do (traverse summary_from_dict vals) (\<lambda>summaries.
       Inr (py_sort_desc end_time summaries)))"

definition load_all_summaries :: "world \<Rightarrow> session_summary list" where
  "load_all_summaries w = (case load_all_summaries_try w of Inl e \<Rightarrow> [] | Inr ss \<Rightarrow> ss)"

definition get_session_summaries :: "world \<Rightarrow> session_summary list" where
  "get_session_summaries w = load_all_summaries w"

text \<open>\<^verbatim>\<open>_save_summary\<close>: an exception is logged and raised again.\<close>

definition save_summary :: "session_summary \<Rightarrow> world \<Rightarrow> (py_error + unit) \<times> world" where
  "save_summary x w =
     (case py_setitem (session_summary.session_id x) (summary_to_dict x) (load_summaries w) of
        Inl e \<Rightarrow> (Inl e, w)
      | Inr summaries \<Rightarrow> write_summaries summaries w)"

subsection \<open>Sessions\<close>

text \<open>
  \<^verbatim>\<open>create_session\<close>: \<open>uuid\<close> is the text of the fresh UUID and \<open>now\<close> the reading of the
  clock. Nothing is written.
\<close>

definition create_session :: "string \<Rightarrow> datetime \<Rightarrow> bool \<Rightarrow> world \<Rightarrow> chat_session \<times> world" where
  "create_session uuid now mem w =
     (let sid = take 8 uuid;
          prev = (if mem then load_all_summaries w else [])
      in (\<lparr> chat_session.session_id = sid, messages = [], chat_session.start_time = now,
            is_active = True, memory_enabled = mem, previous_summaries = prev \<rparr>, w))"

text \<open>\<^verbatim>\<open>save_session\<close>: an exception is logged and raised again.\<close>

definition save_session :: "chat_session \<Rightarrow> world \<Rightarrow> (py_error + unit) \<times> world" where
  "save_session s w =
     (case py_setitem (chat_session.session_id s) (session_to_dict s) (load_sessions w) of
        Inl e \<Rightarrow> (Inl e, w)
      | Inr sessions \<Rightarrow> write_sessions sessions w)"

definition load_session_try :: "string \<Rightarrow> world \<Rightarrow> py_error + chat_session option" where
  "load_session_try sid w =
     (let sessions = load_sessions w in
      then_do (py_in sid sessions) (\<lambda>found.
        if found
        then then_do (py_getitem sid sessions) (\<lambda>session_data.
             then_do (session_from_dict session_data) (\<lambda>session.
               Inr (Some session)))
        else Inr None))"

definition load_session :: "string \<Rightarrow> world \<Rightarrow> py_error + chat_session option" where
  "load_session sid w = except_return None (load_session_try sid w)"

text \<open>
  \<^verbatim>\<open>close_session\<close> mutates the caller's session object first, so the session is part of
  the result. \<open>now\<close> is the reading of the clock when the summary object is built.
\<close>

definition close_session_try ::
    "session_manager \<Rightarrow> datetime \<Rightarrow> chat_session \<Rightarrow> world \<Rightarrow> (py_error + session_summary) \<times> world" where
  "close_session_try sm now session w =
     (case llm_service sm session of
        Inl e \<Rightarrow> (Inl e, w)
      | Inr summary_text \<Rightarrow>
          (let session_summary =
                 \<lparr> session_summary.session_id = chat_session.session_id session,
                   summary = summary_text,
                   message_count = int (length (messages session)),
                   session_summary.start_time = chat_session.start_time session,
                   end_time = now \<rparr>
           in case save_summary session_summary w of
                (Inl e, w1) \<Rightarrow> (Inl e, w1)
              | (Inr u, w1) \<Rightarrow>
                  (case save_session session w1 of
                     (Inl e, w2) \<Rightarrow> (Inl e, w2)
                   | (Inr u, w2) \<Rightarrow> (Inr session_summary, w2))))"

definition close_session ::
    "session_manager \<Rightarrow> datetime \<Rightarrow> chat_session \<Rightarrow> world
       \<Rightarrow> chat_session \<times> (py_error + session_summary option) \<times> world" where
  "close_session sm now session w =
     (let session = session\<lparr>is_active := False\<rparr> in
      case close_session_try sm now session w of
        (Inl e, w') \<Rightarrow> (session, Inr None, w')
      | (Inr x, w') \<Rightarrow> (session, Inr (Some x), w'))"

definition get_session_history :: "world \<Rightarrow> py_error + string list" where
  "get_session_history w = except_return [] (py_keys (load_sessions w))"

primrec active_loop :: "json list \<Rightarrow> py_error + chat_session list" where
  "active_loop [] = Inr []"
| "active_loop (session_data # rest) =
     then_do (py_get session_data ''is_active'' (JBool False)) (\<lambda>flag.
       if truthy flag
       then then_do (session_from_dict session_data) (\<lambda>s.
            then_do (active_loop rest) (\<lambda>ss. Inr (s # ss)))
       else active_loop rest)"

definition get_active_sessions :: "world \<Rightarrow> py_error + chat_session list" where
  "get_active_sessions w =
     except_return [] (then_do (py_values (load_sessions w)) active_loop)"

definition delete_session_try :: "string \<Rightarrow> world \<Rightarrow> (py_error + bool) \<times> world" where
  "delete_session_try sid w =
     (let sessions = load_sessions w in
      case py_in sid sessions of
        Inl e \<Rightarrow> (Inl e, w)
      | Inr False \<Rightarrow> (Inr False, w)
      | Inr True \<Rightarrow>
          (case py_delitem sid sessions of
             Inl e \<Rightarrow> (Inl e, w)
           | Inr sessions' \<Rightarrow>
               (case write_sessions sessions' w of
                  (Inl e, w') \<Rightarrow> (Inl e, w')
                | (Inr u, w') \<Rightarrow> (Inr True, w'))))"

definition delete_session :: "string \<Rightarrow> world \<Rightarrow> (py_error + bool) \<times> world" where
  "delete_session sid w =
     (case delete_session_try sid w of (r, w') \<Rightarrow> (except_return False r, w'))"

subsection \<open>Cleanup\<close>

text \<open>
  The sort of \<^verbatim>\<open>cleanup_old_sessions\<close> compares the raw stored values of \<^verbatim>\<open>start_time\<close>.
  Python orders strings with strings and numbers (booleans included) with numbers, and
  raises \<^verbatim>\<open>TypeError\<close> on \<^verbatim>\<open>None\<close>, on dicts and across these kinds; a list of fewer than two
  items is never compared. Keys that are arrays, which Python compares element by element,
  are reported as \<^verbatim>\<open>TypeError\<close> here.
\<close>

definition is_str :: "json \<Rightarrow> bool" where
  "is_str j = (case j of JStr s \<Rightarrow> True | _ \<Rightarrow> False)"

definition is_num :: "json \<Rightarrow> bool" where
  "is_num j = (case j of JNum n \<Rightarrow> True | JBool b \<Rightarrow> True | _ \<Rightarrow> False)"

definition str_val :: "json \<Rightarrow> string" where
  "str_val j = (case j of JStr s \<Rightarrow> s | _ \<Rightarrow> [])"

definition num_val :: "json \<Rightarrow> int" where
  "num_val j = (case j of JNum n \<Rightarrow> n | JBool b \<Rightarrow> (if b then 1 else 0) | _ \<Rightarrow> 0)"

definition start_time_key :: "string \<times> json \<Rightarrow> py_error + json" where
  "start_time_key x = py_get (snd x) ''start_time'' (JStr [])"

definition sort_by_start_time :: "(string \<times> json) list \<Rightarrow> py_error + (string \<times> json) list" where
  "sort_by_start_time items =
     then_do (traverse start_time_key items) (\<lambda>keys.
       if length items < 2 then Inr items
       else if list_all is_str keys
         then Inr (map snd (py_sort_desc (\<lambda>p. str_val (fst p)) (zip keys items)))
       else if list_all is_num keys
         then Inr (map snd (py_sort_desc (\<lambda>p. num_val (fst p)) (zip keys items)))
       else Inl TypeError)"

text \<open>
  The loop \<^verbatim>\<open>for session_id in sessions_to_delete: summaries.pop(session_id, None)\<close>. The
  source iterates over a set; the outcome does not depend on the order.
\<close>

primrec pop_all :: "string list \<Rightarrow> json \<Rightarrow> py_error + json" where
  "pop_all [] j = Inr j"
| "pop_all (k # ks) j = then_do (py_pop k j) (pop_all ks)"

definition cleanup_old_sessions_try :: "int \<Rightarrow> world \<Rightarrow> (py_error + unit) \<times> world" where
  "cleanup_old_sessions_try keep_count w =
     (let sessions = load_sessions w;
          summaries = load_summaries w
      in case py_len sessions of
           Inl e \<Rightarrow> (Inl e, w)
         | Inr n \<Rightarrow>
             if int n \<le> keep_count then (Inr (), w)
             else
               (case then_do (py_items sessions) sort_by_start_time of
                  Inl e \<Rightarrow> (Inl e, w)
                | Inr session_items \<Rightarrow>
                    (let sessions_to_keep = dict_of_pairs (py_slice_to keep_count session_items)
                     in case write_sessions (JObj sessions_to_keep) w of
                          (Inl e, w1) \<Rightarrow> (Inl e, w1)
                        | (Inr u, w1) \<Rightarrow>
                            (let sessions_to_delete =
                                   filter (\<lambda>k. k \<notin> set (map fst sessions_to_keep))
                                     (map fst session_items)
                             in case pop_all sessions_to_delete summaries of
                                  Inl e \<Rightarrow> (Inl e, w1)
                                | Inr summaries' \<Rightarrow>
                                    (case write_summaries summaries' w1 of
                                       (Inl e, w2) \<Rightarrow> (Inl e, w2)
                                     | (Inr u, w2) \<Rightarrow> (Inr (), w2))))))"

definition cleanup_old_sessions :: "int \<Rightarrow> world \<Rightarrow> (py_error + unit) \<times> world" where
  "cleanup_old_sessions keep_count w =
     (case cleanup_old_sessions_try keep_count w of (r, w') \<Rightarrow> (except_return () r, w'))"

subsection \<open>Statistics\<close>

definition message_len :: "json \<Rightarrow> py_error + nat" where
  "message_len s = then_do (py_get s ''messages'' (JArr [])) py_len"

definition get_storage_stats_try :: "session_manager \<Rightarrow> world \<Rightarrow> py_error + (string \<times> json) list" where
  "get_storage_stats_try sm w =
     (let sessions = load_sessions w;
          summaries = load_summaries w
      in then_do (py_values sessions) (\<lambda>vals.
         then_do (traverse (\<lambda>s. py_get s ''is_active'' (JBool False)) vals) (\<lambda>flags.
         then_do (traverse message_len vals) (\<lambda>lens.
         then_do (py_len sessions) (\<lambda>total_sessions.
         then_do (py_len summaries) (\<lambda>total_summaries.
           Inr [(''total_sessions'', JNum (int total_sessions)),
                (''active_sessions'', JNum (int (length (filter truthy flags)))),
                (''total_summaries'', JNum (int total_summaries)),
                (''total_messages'', JNum (int (sum_list lens))),
                (''storage_path'', JStr (storage_path sm))]))))))"

definition get_storage_stats :: "session_manager \<Rightarrow> world \<Rightarrow> py_error + (string \<times> json) list" where
  "get_storage_stats sm w = except_return [] (get_storage_stats_try sm w)"

section \<open>Auxiliary notions\<close>

text \<open>A Python value is a JSON tree that decoding leaves alone: all its dicts have distinct keys.\<close>

definition py_value :: "json \<Rightarrow> bool" where
  "py_value j = (json_decode j = j)"

text \<open>A store on working storage with nothing in it yet, and a store with given documents.\<close>

definition fresh_store :: world where
  "fresh_store =
     \<lparr> sessions_file = Missing, summaries_file = Missing,
       sessions_fault = NoFault, summaries_fault = NoFault \<rparr>"

definition store_of :: "storage_file \<Rightarrow> storage_file \<Rightarrow> world" where
  "store_of f g =
     \<lparr> sessions_file = f, summaries_file = g,
       sessions_fault = NoFault, summaries_fault = NoFault \<rparr>"

text \<open>
  The test \<^verbatim>\<open>s.get('is_active', False)\<close> that \<^verbatim>\<open>get_active_sessions\<close> and
  \<^verbatim>\<open>get_storage_stats\<close> apply to a stored record, for a record that is a dict.
\<close>

definition record_active :: "json \<Rightarrow> bool" where
  "record_active v = (case v of JObj r \<Rightarrow> truthy (dict_get r ''is_active'' (JBool False)) | _ \<Rightarrow> False)"

text \<open>A summarizer that answers with a fixed text, whatever the session.\<close>

definition fixed_summarizer :: "string \<Rightarrow> chat_session \<Rightarrow> py_error + string" where
  "fixed_summarizer txt s = Inr txt"

text \<open>
  The key by which \<^verbatim>\<open>cleanup_old_sessions\<close> ranks a stored record whose \<^verbatim>\<open>start_time\<close> is a
  string (or is missing, which counts as the empty string), and the records that have such
  a key.
\<close>

definition raw_start_time :: "json \<Rightarrow> string" where
  "raw_start_time v =
     (case v of JObj r \<Rightarrow> str_val (dict_get r ''start_time'' (JStr [])) | _ \<Rightarrow> [])"

definition textual_start_time :: "json \<Rightarrow> bool" where
  "textual_start_time v =
     (case v of JObj r \<Rightarrow> is_str (dict_get r ''start_time'' (JStr [])) | _ \<Rightarrow> False)"

section \<open>Decoding\<close>

lemma update_fresh: "k \<notin> fst ` set d \<Longrightarrow> AList.update k v d = d @ [(k, v)]"
  by (induction d) auto

lemma foldl_update_distinct:
  "distinct (map fst d) \<Longrightarrow>
   distinct (map fst (foldl (\<lambda>d kv. AList.update (fst kv) (snd kv) d) d ps))"
  by (induction ps arbitrary: d) (auto simp: distinct_update)

lemma distinct_dict_of_pairs: "distinct (map fst (dict_of_pairs ps))"
  by (simp add: dict_of_pairs_def foldl_update_distinct)

lemma foldl_update_append:
  "distinct (map fst (d @ ps)) \<Longrightarrow>
   foldl (\<lambda>d kv. AList.update (fst kv) (snd kv) d) d ps = d @ ps"
proof (induction ps arbitrary: d)
  case Nil
  then show ?case by simp
next
  case (Cons p ps)
  have fresh: "fst p \<notin> fst ` set d" using Cons.prems by auto
  have "distinct (map fst ((d @ [p]) @ ps))" using Cons.prems by auto
  from Cons.IH [OF this] show ?case
    using fresh by (simp add: update_fresh [OF fresh])
qed

lemma dict_of_pairs_distinct: "distinct (map fst ps) \<Longrightarrow> dict_of_pairs ps = ps"
  using foldl_update_append [of "[]" ps] by (simp add: dict_of_pairs_def)

lemma map_update_val:
  "map (map_prod id f) (AList.update k v d) = AList.update k (f v) (map (map_prod id f) d)"
  by (induction d) auto

lemma map_foldl_update:
  "map (map_prod id f) (foldl (\<lambda>d kv. AList.update (fst kv) (snd kv) d) d ps)
     = foldl (\<lambda>d kv. AList.update (fst kv) (snd kv) d)
         (map (map_prod id f) d) (map (map_prod id f) ps)"
  by (induction ps arbitrary: d) (auto simp: map_update_val)

lemma map_dict_of_pairs:
  "map (map_prod id f) (dict_of_pairs ps) = dict_of_pairs (map (map_prod id f) ps)"
  by (simp add: dict_of_pairs_def map_foldl_update)

lemma json_decode_idem: "json_decode (json_decode j) = json_decode j"
proof (induction j)
  case (JObj ps)
  have "map (map_prod id json_decode) (map (map_prod id json_decode) ps)
          = map (map_prod id json_decode) ps"
    using JObj by (auto simp: map_prod_def split: prod.splits)
  then show ?case
    by (simp add: map_dict_of_pairs dict_of_pairs_distinct distinct_dict_of_pairs del: map_map)
qed auto

lemma py_value_JObj:
  "py_value (JObj d) \<longleftrightarrow> distinct (map fst d) \<and> (\<forall>v \<in> snd ` set d. py_value v)"
proof
  assume h: "py_value (JObj d)"
  then have eq: "dict_of_pairs (map (map_prod id json_decode) d) = d"
    by (simp add: py_value_def)
  have dist: "distinct (map fst d)"
    using distinct_dict_of_pairs [of "map (map_prod id json_decode) d"] eq by simp
  then have "distinct (map fst (map (map_prod id json_decode) d))"
    by (simp add: comp_def)
  then have "map (map_prod id json_decode) d = d"
    using eq by (simp add: dict_of_pairs_distinct)
  then have "\<forall>p \<in> set d. map_prod id json_decode p = p"
    by (metis map_eq_conv map_ident)
  then have "\<forall>v \<in> snd ` set d. py_value v"
    by (auto simp: py_value_def)
  with dist show "distinct (map fst d) \<and> (\<forall>v \<in> snd ` set d. py_value v)" by simp
next
  assume h: "distinct (map fst d) \<and> (\<forall>v \<in> snd ` set d. py_value v)"
  then have "\<forall>p \<in> set d. map_prod id json_decode p = p"
    by (auto simp: py_value_def)
  then have m: "map (map_prod id json_decode) d = d"
    by (simp add: map_idI)
  show "py_value (JObj d)"
    using h by (simp add: py_value_def m dict_of_pairs_distinct)
qed

lemma py_value_decode: "py_value (json_decode j)"
  by (simp add: py_value_def json_decode_idem)

lemma py_value_load: "py_value (load_collection f)"
  by (cases f)
     (auto simp: load_collection_def read_json_def json_decode_idem py_value_def
        dict_of_pairs_def)

lemma except_return_Inr: "\<exists>r. except_return d x = Inr r"
  by (cases x) (simp_all add: except_return_def)

lemma traverse_Inr_iff: "traverse f xs = Inr ys \<longleftrightarrow> map f xs = map Inr ys"
proof (induction xs arbitrary: ys)
  case Nil
  then show ?case by auto
next
  case (Cons x xs)
  show ?case
  proof (cases "f x")
    case (Inl e)
    then show ?thesis by (cases ys) auto
  next
    case fx: (Inr y)
    show ?thesis
    proof (cases "traverse f xs")
      case (Inl e)
      then have "\<And>zs. map f xs \<noteq> map Inr zs" using Cons.IH by auto
      with Inl fx show ?thesis by (cases ys) auto
    next
      case (Inr zs)
      then have "map f xs = map Inr zs" using Cons.IH by simp
      with Inr fx show ?thesis by (cases ys) auto
    qed
  qed
qed

lemma load_collection_Doc: "py_value j \<Longrightarrow> load_collection (Doc j) = j"
  by (simp add: load_collection_def read_json_def py_value_def)

lemma py_value_delete: "py_value (JObj d) \<Longrightarrow> py_value (JObj (AList.delete k d))"
proof -
  assume h: "py_value (JObj d)"
  have "set (AList.delete k d) \<subseteq> set d" by (auto simp: AList.delete_eq)
  with h show ?thesis by (auto simp: py_value_JObj distinct_delete)
qed

lemma set_update_subset: "set (AList.update k v d) \<subseteq> insert (k, v) (set d)"
  by (induction d) auto

lemma py_value_update:
  "py_value (JObj d) \<Longrightarrow> py_value v \<Longrightarrow> py_value (JObj (AList.update k v d))"
  using set_update_subset [of k v d]
  by (fastforce simp: py_value_JObj distinct_update)

lemma py_value_sessions: "py_value (load_sessions w)"
  by (simp add: load_sessions_def py_value_load)

lemma py_value_summaries: "py_value (load_summaries w)"
  by (simp add: load_summaries_def py_value_load)

section \<open>The record codec\<close>

lemma is_digit_digit_char: "d < 10 \<Longrightarrow> is_digit (digit_char d)"
  by (simp add: is_digit_def digit_char_def)

lemma digit_val_digit_char: "d < 10 \<Longrightarrow> digit_val (digit_char d) = d"
  by (simp add: digit_val_def digit_char_def)

lemma decimal_digits: "list_all is_digit (decimal n)"
proof (induction n rule: decimal.induct)
  case (1 n)
  show ?case
  proof (cases "n < 10")
    case True
    then show ?thesis by (subst decimal.simps) (simp add: is_digit_digit_char)
  next
    case False
    then show ?thesis using 1 by (subst decimal.simps) (simp add: is_digit_digit_char)
  qed
qed

lemma decimal_nonempty: "decimal n \<noteq> []"
  by (subst decimal.simps) simp

lemma decimal_value: "foldl (\<lambda>a c. 10 * a + digit_val c) 0 (decimal n) = n"
proof (induction n rule: decimal.induct)
  case (1 n)
  show ?case
  proof (cases "n < 10")
    case True
    then show ?thesis by (subst decimal.simps) (simp add: digit_val_digit_char)
  next
    case False
    then show ?thesis using 1 by (subst decimal.simps) (simp add: digit_val_digit_char)
  qed
qed

lemma zeros_value: "foldl (\<lambda>a c. 10 * a + digit_val c) 0 (replicate k (CHR ''0'')) = 0"
  by (induction k) (simp_all add: digit_val_def)

lemma ts_roundtrip: "ts_of_text (ts_to_text t) = Some t"
proof -
  have "is_digit (CHR ''0'')" by (simp add: is_digit_def)
  then have "list_all is_digit (ts_to_text t)"
    using decimal_digits [of t] by (auto simp: ts_to_text_def list_all_iff)
  moreover have "ts_to_text t \<noteq> []"
    by (simp add: ts_to_text_def decimal_nonempty)
  moreover have "foldl (\<lambda>a c. 10 * a + digit_val c) 0 (ts_to_text t) = t"
    by (simp add: ts_to_text_def zeros_value decimal_value)
  ultimately show ?thesis by (simp add: ts_of_text_def)
qed

lemma role_roundtrip: "role_of_text (role_to_text r) = Inr r"
  by (cases r) (simp_all add: role_of_text_def role_to_text_def)

lemma message_roundtrip: "message_from_dict (message_to_dict m) = Inr m"
  by (simp add: message_from_dict_def message_to_dict_def then_do_def get_str_def get_time_def
      py_getitem_def ts_roundtrip role_roundtrip)

lemma summary_roundtrip: "summary_from_dict (summary_to_dict x) = Inr x"
  by (simp add: summary_from_dict_def summary_to_dict_def then_do_def get_str_def get_time_def
      get_int_def py_getitem_def ts_roundtrip)

lemma traverse_roundtrip: "(\<And>x. f (g x) = Inr x) \<Longrightarrow> traverse f (map g xs) = Inr xs"
  by (induction xs) simp_all

lemma session_roundtrip: "session_from_dict (session_to_dict s) = Inr s"
  by (simp add: session_from_dict_def session_to_dict_def then_do_def get_str_def get_time_def
      get_bool_def get_list_def py_getitem_def ts_roundtrip
      traverse_roundtrip [of message_from_dict message_to_dict, OF message_roundtrip]
      traverse_roundtrip [of summary_from_dict summary_to_dict, OF summary_roundtrip])

lemma py_value_message: "py_value (message_to_dict m)"
  by (simp add: message_to_dict_def py_value_def dict_of_pairs_def)

lemma py_value_summary: "py_value (summary_to_dict x)"
  by (simp add: summary_to_dict_def py_value_def dict_of_pairs_def)

lemma py_value_session: "py_value (session_to_dict s)"
proof -
  have "map json_decode (map message_to_dict (messages s)) = map message_to_dict (messages s)"
    using py_value_message by (simp add: py_value_def)
  moreover have "map json_decode (map summary_to_dict (previous_summaries s))
        = map summary_to_dict (previous_summaries s)"
    using py_value_summary by (simp add: py_value_def)
  ultimately show ?thesis
    by (simp add: session_to_dict_def py_value_def dict_of_pairs_def del: map_map)
qed

section \<open>Loading a session\<close>

text \<open>
  Claim C6. \<^verbatim>\<open>load_session\<close> never raises. It answers \<^verbatim>\<open>None\<close> when the id is not a key of
  the sessions collection, and it answers \<^verbatim>\<open>None\<close> as well when the sessions file cannot be
  read or parsed: the caller cannot tell the two apart.
\<close>

theorem load_session_not_found:
  "(\<exists>r. load_session sid w = Inr r)
   \<and> (\<forall>d. load_sessions w = JObj d \<and> sid \<notin> set (map fst d)
          \<longrightarrow> load_session sid w = Inr None)
   \<and> (sessions_file w = Garbage \<longrightarrow> load_session sid w = Inr None)"
proof (intro conjI allI impI)
  show "\<exists>r. load_session sid w = Inr r"
    by (simp add: load_session_def except_return_Inr)
next
  fix d assume "load_sessions w = JObj d \<and> sid \<notin> set (map fst d)"
  then show "load_session sid w = Inr None"
    by (simp add: load_session_def load_session_try_def py_in_def then_do_def
        except_return_def)
next
  assume "sessions_file w = Garbage"
  then show "load_session sid w = Inr None"
    by (simp add: load_session_def load_session_try_def load_sessions_def
        load_collection_def read_json_def py_in_def then_do_def except_return_def)
qed

theorem load_session_not_found_witness:
  "load_session ''b'' (store_of (Doc (JObj [(''a'', JNull)])) Missing) = Inr None
   \<and> load_session ''b'' (store_of Garbage Missing) = Inr None"
  using load_session_not_found [of "''b''" "store_of (Doc (JObj [(''a'', JNull)])) Missing"]
    load_session_not_found [of "''b''" "store_of Garbage Missing"]
  by (simp add: store_of_def load_sessions_def load_collection_def read_json_def
      dict_of_pairs_def)

section \<open>Saving a session\<close>

text \<open>
  Claim C7. When the write of the sessions collection fails, \<^verbatim>\<open>save_session\<close> raises to its
  caller; and whenever \<^verbatim>\<open>save_session\<close> returns normally the write did happen: the sessions
  file then holds a collection with the session's record under its id.
\<close>

theorem save_session_write_failure:
  "(sessions_fault w \<noteq> NoFault \<longrightarrow> (\<exists>e. fst (save_session s w) = Inl e))
   \<and> (fst (save_session s w) = Inr () \<longrightarrow>
        sessions_fault w = NoFault
        \<and> (\<exists>d. sessions_file (snd (save_session s w)) = Doc (JObj d)
              \<and> map_of d (chat_session.session_id s) = Some (session_to_dict s)))"
  by (cases "load_sessions w"; cases "sessions_fault w")
     (auto simp: save_session_def py_setitem_def write_sessions_def write_json_def
        update_conv')

theorem save_session_write_failure_witness:
  "fst (save_session
          \<lparr> chat_session.session_id = ''a'', messages = [], chat_session.start_time = 3,
            is_active = True, memory_enabled = True, previous_summaries = [] \<rparr>
          (fresh_store \<lparr> sessions_fault := OpenFails \<rparr>)) = Inl OSError
   \<and> fst (save_session
          \<lparr> chat_session.session_id = ''a'', messages = [], chat_session.start_time = 3,
            is_active = True, memory_enabled = True, previous_summaries = [] \<rparr>
          fresh_store) = Inr ()"
  using save_session_write_failure
     [of "fresh_store \<lparr> sessions_fault := OpenFails \<rparr>"
         "\<lparr> chat_session.session_id = ''a'', messages = [], chat_session.start_time = 3,
            is_active = True, memory_enabled = True, previous_summaries = [] \<rparr>"]
    save_session_write_failure
     [of fresh_store
         "\<lparr> chat_session.session_id = ''a'', messages = [], chat_session.start_time = 3,
            is_active = True, memory_enabled = True, previous_summaries = [] \<rparr>"]
  by (simp add: fresh_store_def save_session_def py_setitem_def load_sessions_def
      load_collection_def write_sessions_def write_json_def)

text \<open>
  Claim C5. On a store whose sessions collection is a mapping and whose sessions file can
  be written, \<^verbatim>\<open>save_session\<close> followed by \<^verbatim>\<open>load_session\<close> with the same id gives back the
  session, equal in every field; the collection afterwards is the old one with the
  session's record put under its id; and saving a second session with the same id leaves
  the store exactly as if only the second had been saved: the first record is replaced as
  a whole.
\<close>

theorem save_then_load_roundtrip:
  "\<forall>d. load_sessions w = JObj d \<and> sessions_fault w = NoFault \<longrightarrow>
      fst (save_session s w) = Inr ()
      \<and> load_session (chat_session.session_id s) (snd (save_session s w)) = Inr (Some s)
      \<and> load_sessions (snd (save_session s w))
          = JObj (AList.update (chat_session.session_id s) (session_to_dict s) d)
      \<and> (\<forall>s2. chat_session.session_id s2 = chat_session.session_id s \<longrightarrow>
            snd (save_session s2 (snd (save_session s w))) = snd (save_session s2 w))"
proof (intro allI impI)
  fix d assume h: "load_sessions w = JObj d \<and> sessions_fault w = NoFault"
  let ?sid = "chat_session.session_id s"
  let ?d' = "AList.update ?sid (session_to_dict s) d"
  let ?w' = "w\<lparr>sessions_file := Doc (JObj ?d')\<rparr>"
  have saved: "save_session s w = (Inr (), ?w')"
    using h by (simp add: save_session_def py_setitem_def write_sessions_def write_json_def)
  have pv: "py_value (JObj ?d')"
    using py_value_sessions [of w] h by (simp add: py_value_update py_value_session)
  have loaded: "load_sessions ?w' = JObj ?d'"
    by (simp add: load_sessions_def load_collection_Doc [OF pv])
  have found: "?sid \<in> fst ` set ?d'" by (simp add: dom_update)
  have "load_session ?sid ?w' = Inr (Some s)"
    using found
    by (simp add: load_session_def load_session_try_def loaded py_in_def py_getitem_def
        then_do_def except_return_def update_conv' session_roundtrip)
  moreover have "\<forall>s2. chat_session.session_id s2 = ?sid \<longrightarrow>
            snd (save_session s2 ?w') = snd (save_session s2 w)"
    using h
    by (simp add: save_session_def loaded py_setitem_def write_sessions_def write_json_def)
  ultimately show "fst (save_session s w) = Inr ()
      \<and> load_session ?sid (snd (save_session s w)) = Inr (Some s)
      \<and> load_sessions (snd (save_session s w)) = JObj ?d'
      \<and> (\<forall>s2. chat_session.session_id s2 = ?sid \<longrightarrow>
            snd (save_session s2 (snd (save_session s w))) = snd (save_session s2 w))"
    by (simp add: saved loaded)
qed

theorem save_then_load_roundtrip_witness:
  "load_session ''a''
     (snd (save_session
        \<lparr> chat_session.session_id = ''a'',
          messages = [\<lparr> role = User, content = ''hi'', timestamp = 4 \<rparr>],
          chat_session.start_time = 3, is_active = True, memory_enabled = False,
          previous_summaries = [] \<rparr> fresh_store))
   = Inr (Some \<lparr> chat_session.session_id = ''a'',
          messages = [\<lparr> role = User, content = ''hi'', timestamp = 4 \<rparr>],
          chat_session.start_time = 3, is_active = True, memory_enabled = False,
          previous_summaries = [] \<rparr>)"
  using save_then_load_roundtrip [of fresh_store
        "\<lparr> chat_session.session_id = ''a'',
          messages = [\<lparr> role = User, content = ''hi'', timestamp = 4 \<rparr>],
          chat_session.start_time = 3, is_active = True, memory_enabled = False,
          previous_summaries = [] \<rparr>"]
  by (simp add: fresh_store_def load_sessions_def load_collection_def)

section \<open>Deleting a session\<close>

text \<open>
  Claim C8. \<^verbatim>\<open>delete_session\<close> on an id that is not a key returns \<^verbatim>\<open>False\<close> and leaves the
  store as it was. On an id that is a key (the sessions file being writable) it returns
  \<^verbatim>\<open>True\<close>, and \<^verbatim>\<open>get_session_history\<close> afterwards lists the other ids and not this one.
  In every case the summaries file is what it was.
\<close>

theorem delete_session_spec:
  "(\<forall>d. load_sessions w = JObj d \<and> sid \<notin> set (map fst d)
        \<longrightarrow> delete_session sid w = (Inr False, w))
   \<and> (\<forall>d. load_sessions w = JObj d \<and> sid \<in> set (map fst d) \<and> sessions_fault w = NoFault
        \<longrightarrow> fst (delete_session sid w) = Inr True
            \<and> get_session_history (snd (delete_session sid w))
                = Inr (removeAll sid (map fst d))
            \<and> sid \<notin> set (removeAll sid (map fst d)))
   \<and> summaries_file (snd (delete_session sid w)) = summaries_file w"
proof (intro conjI allI impI)
  fix d assume "load_sessions w = JObj d \<and> sid \<notin> set (map fst d)"
  then show "delete_session sid w = (Inr False, w)"
    by (simp add: delete_session_def delete_session_try_def py_in_def except_return_def)
next
  fix d assume h: "load_sessions w = JObj d \<and> sid \<in> set (map fst d) \<and> sessions_fault w = NoFault"
  have pv: "py_value (JObj (AList.delete sid d))"
    using py_value_sessions [of w] h by (simp add: py_value_delete)
  have res: "delete_session sid w = (Inr True, w\<lparr>sessions_file := Doc (JObj (AList.delete sid d))\<rparr>)"
    using h by (simp add: delete_session_def delete_session_try_def py_in_def py_delitem_def
        write_sessions_def write_json_def except_return_def)
  show "fst (delete_session sid w) = Inr True" by (simp add: res)
  have "map fst (AList.delete sid d) = removeAll sid (map fst d)"
    by (rule delete_keys)
  then show "get_session_history (snd (delete_session sid w)) = Inr (removeAll sid (map fst d))"
    by (simp add: res get_session_history_def load_sessions_def load_collection_Doc [OF pv]
        py_keys_def except_return_def)
  show "sid \<notin> set (removeAll sid (map fst d))" by simp
next
  show "summaries_file (snd (delete_session sid w)) = summaries_file w"
    by (cases "load_sessions w"; cases "sessions_fault w")
       (auto simp: delete_session_def delete_session_try_def py_in_def py_delitem_def
        write_sessions_def write_json_def except_return_def split: sum.splits bool.splits if_splits)
qed

theorem delete_session_spec_witness:
  "delete_session ''z'' (store_of (Doc (JObj [(''a'', JNull), (''b'', JNull)])) Missing)
     = (Inr False, store_of (Doc (JObj [(''a'', JNull), (''b'', JNull)])) Missing)
   \<and> fst (delete_session ''a'' (store_of (Doc (JObj [(''a'', JNull), (''b'', JNull)])) Missing))
     = Inr True
   \<and> get_session_history
       (snd (delete_session ''a'' (store_of (Doc (JObj [(''a'', JNull), (''b'', JNull)])) Missing)))
     = Inr [''b'']"
  using delete_session_spec [of "store_of (Doc (JObj [(''a'', JNull), (''b'', JNull)])) Missing" "''z''"]
    delete_session_spec [of "store_of (Doc (JObj [(''a'', JNull), (''b'', JNull)])) Missing" "''a''"]
  by (simp add: store_of_def load_sessions_def load_collection_def read_json_def
      dict_of_pairs_def)

section \<open>Records without the activity flag\<close>

lemma flags_count:
  "traverse (\<lambda>s. py_get s ''is_active'' (JBool False)) vals = Inr flags
   \<Longrightarrow> length (filter truthy flags) = length (filter record_active vals)"
proof (induction vals arbitrary: flags)
  case Nil
  then show ?case by simp
next
  case (Cons v vals)
  then show ?case
    by (cases v) (auto simp: py_get_def record_active_def split: sum.splits)
qed

lemma inactive_skip:
  "distinct (map fst d) \<Longrightarrow> (k, v) \<in> set d \<Longrightarrow> \<not> record_active v
   \<Longrightarrow> filter record_active (map snd (AList.delete k d)) = filter record_active (map snd d)"
  by (induction d) (auto simp: rev_image_eqI)

lemma active_loop_skip:
  "distinct (map fst d) \<Longrightarrow> (k, JObj r) \<in> set d \<Longrightarrow> \<not> record_active (JObj r)
   \<Longrightarrow> active_loop (map snd (AList.delete k d)) = active_loop (map snd d)"
proof (induction d)
  case Nil
  then show ?case by simp
next
  case (Cons p d)
  show ?case
  proof (cases "fst p = k")
    case True
    then have "snd p = JObj r" and "k \<notin> fst ` set d"
      using Cons.prems by (cases p; auto simp: rev_image_eqI)+
    then show ?thesis
      using True Cons.prems(3)
      by (cases p) (simp add: py_get_def record_active_def then_do_def)
  next
    case False
    then have "(k, JObj r) \<in> set d" using Cons.prems by auto
    then have eq: "active_loop (map snd (AList.delete k d)) = active_loop (map snd d)"
      using Cons by simp
    show ?thesis using False by (cases p) (simp add: eq cong: if_cong)
  qed
qed

lemma no_flag_inactive: "''is_active'' \<notin> set (map fst r) \<Longrightarrow> \<not> record_active (JObj r)"
  by (simp add: record_active_def dict_get_def truthy_def map_of_eq_None_iff [THEN iffD2])

lemma stats_active_field:
  assumes "get_storage_stats sm w = Inr st" "st \<noteq> []" "load_sessions w = JObj d"
  shows "map_of st ''active_sessions''
           = Some (JNum (int (length (filter record_active (map snd d)))))"
proof -
  from assms obtain r where r: "get_storage_stats_try sm w = Inr r" and "st = r"
    by (cases "get_storage_stats_try sm w") (auto simp: get_storage_stats_def except_return_def)
  from r assms(3) obtain flags where
    f: "traverse (\<lambda>s. py_get s ''is_active'' (JBool False)) (map snd d) = Inr flags"
    and "map_of r ''active_sessions'' = Some (JNum (int (length (filter truthy flags))))"
    by (auto simp: get_storage_stats_try_def Let_def then_do_def py_values_def split: sum.splits)
  then show ?thesis using flags_count [OF f] \<open>st = r\<close> by simp
qed

text \<open>
  Claim C10. A stored session record without an \<^verbatim>\<open>is_active\<close> field counts as inactive:
  \<^verbatim>\<open>get_active_sessions\<close> answers as it would on the store without that record, and the
  \<^verbatim>\<open>active_sessions\<close> figure of \<^verbatim>\<open>get_storage_stats\<close> is the number of active records among
  the other records.
\<close>

theorem missing_is_active_flag:
  "\<forall>d k r. load_sessions w = JObj d \<and> (k, JObj r) \<in> set d \<and> ''is_active'' \<notin> set (map fst r)
     \<longrightarrow> get_active_sessions w
           = get_active_sessions (w\<lparr>sessions_file := Doc (JObj (AList.delete k d))\<rparr>)
         \<and> (\<forall>st. get_storage_stats sm w = Inr st \<and> st \<noteq> [] \<longrightarrow>
               map_of st ''active_sessions''
                 = Some (JNum (int (length (filter record_active (map snd (AList.delete k d)))))))"
proof (intro allI impI conjI)
  fix d k r
  assume h: "load_sessions w = JObj d \<and> (k, JObj r) \<in> set d \<and> ''is_active'' \<notin> set (map fst r)"
  have pv: "py_value (JObj d)" using py_value_sessions [of w] h by simp
  then have dist: "distinct (map fst d)" by (simp add: py_value_JObj)
  have inact: "\<not> record_active (JObj r)" using h by (simp add: no_flag_inactive)
  have "load_sessions (w\<lparr>sessions_file := Doc (JObj (AList.delete k d))\<rparr>) = JObj (AList.delete k d)"
    by (simp add: load_sessions_def load_collection_Doc [OF py_value_delete [OF pv]])
  then show "get_active_sessions w
           = get_active_sessions (w\<lparr>sessions_file := Doc (JObj (AList.delete k d))\<rparr>)"
    using h active_loop_skip [OF dist _ inact, of k]
    by (simp add: get_active_sessions_def py_values_def then_do_def)
  fix st assume "get_storage_stats sm w = Inr st \<and> st \<noteq> []"
  then show "map_of st ''active_sessions''
                 = Some (JNum (int (length (filter record_active (map snd (AList.delete k d))))))"
    using stats_active_field [of sm w st d] h inactive_skip [OF dist _ inact, of k] by simp
qed


theorem missing_is_active_flag_witness:
  "get_active_sessions
     (store_of
        (Doc (JObj
          [(''a'', JObj [(''session_id'', JStr ''a'')]),
           (''b'', session_to_dict
              \<lparr> chat_session.session_id = ''b'', messages = [], chat_session.start_time = 3,
                is_active = True, memory_enabled = False, previous_summaries = [] \<rparr>)]))
        Missing)
   = Inr [\<lparr> chat_session.session_id = ''b'', messages = [], chat_session.start_time = 3,
                is_active = True, memory_enabled = False, previous_summaries = [] \<rparr>]
   \<and> get_storage_stats \<lparr> storage_path = ''./sessions'', llm_service = fixed_summarizer [] \<rparr>
     (store_of
        (Doc (JObj
          [(''a'', JObj [(''session_id'', JStr ''a'')]),
           (''b'', session_to_dict
              \<lparr> chat_session.session_id = ''b'', messages = [], chat_session.start_time = 3,
                is_active = True, memory_enabled = False, previous_summaries = [] \<rparr>)]))
        Missing)
   = Inr [(''total_sessions'', JNum 2), (''active_sessions'', JNum 1),
          (''total_summaries'', JNum 0), (''total_messages'', JNum 0),
          (''storage_path'', JStr ''./sessions'')]"
  using missing_is_active_flag
     [of "store_of
        (Doc (JObj
          [(''a'', JObj [(''session_id'', JStr ''a'')]),
           (''b'', session_to_dict
              \<lparr> chat_session.session_id = ''b'', messages = [], chat_session.start_time = 3,
                is_active = True, memory_enabled = False, previous_summaries = [] \<rparr>)]))
        Missing"
         "\<lparr> storage_path = ''./sessions'', llm_service = fixed_summarizer [] \<rparr>",
      rule_format,
      of "[(''a'', JObj [(''session_id'', JStr ''a'')]),
           (''b'', session_to_dict
              \<lparr> chat_session.session_id = ''b'', messages = [], chat_session.start_time = 3,
                is_active = True, memory_enabled = False, previous_summaries = [] \<rparr>)]"
         "''a''" "[(''session_id'', JStr ''a'')]"]
  by (simp add: store_of_def load_sessions_def load_summaries_def load_collection_def
      read_json_def dict_of_pairs_def session_to_dict_def session_from_dict_def
      get_active_sessions_def get_storage_stats_def get_storage_stats_try_def
      py_values_def py_get_def py_len_def py_getitem_def message_len_def dict_get_def
      truthy_def then_do_def except_return_def get_str_def get_list_def get_time_def
      get_bool_def ts_roundtrip)

section \<open>Summaries and session creation\<close>

lemma sorted_desc_py_sort: "sorted (rev (map f (py_sort_desc f xs)))"
  by (simp add: py_sort_desc_def rev_map [symmetric])

lemma mset_py_sort: "mset (py_sort_desc f xs) = mset xs"
  by (simp add: py_sort_desc_def)

lemma load_all_summaries_decoded:
  "load_summaries w = JObj d \<Longrightarrow> map summary_from_dict (map snd d) = map Inr ss
   \<Longrightarrow> load_all_summaries w = py_sort_desc end_time ss"
  using traverse_Inr_iff [of summary_from_dict "map snd d" ss]
  by (simp add: load_all_summaries_def load_all_summaries_try_def py_values_def then_do_def)

lemma traverse_Inl_iff:
  "(\<exists>e. traverse f xs = Inl e) \<longleftrightarrow> (\<exists>x \<in> set xs. \<exists>e. f x = Inl e)"
proof (induction xs)
  case Nil
  then show ?case by simp
next
  case (Cons x xs)
  show ?case
  proof (cases "f x")
    case (Inl e)
    then show ?thesis by auto
  next
    case fx: (Inr y)
    show ?thesis
    proof (cases "traverse f xs")
      case (Inl e)
      with fx Cons show ?thesis by auto
    next
      case (Inr ys)
      with fx Cons show ?thesis by auto
    qed
  qed
qed

lemma load_all_summaries_undecodable:
  assumes "load_summaries w = JObj d"
    and "\<exists>v \<in> set (map snd d). \<exists>e. summary_from_dict v = Inl e"
  shows "load_all_summaries w = []"
proof -
  from assms(2) obtain e where "traverse summary_from_dict (map snd d) = Inl e"
    using traverse_Inl_iff [of summary_from_dict "map snd d"] by blast
  then show ?thesis
    using assms(1)
    by (simp add: load_all_summaries_def load_all_summaries_try_def py_values_def then_do_def)
qed

lemma load_all_summaries_sorted: "sorted (rev (map end_time (load_all_summaries w)))"
proof (cases "load_all_summaries_try w")
  case (Inl e)
  then show ?thesis by (simp add: load_all_summaries_def)
next
  case (Inr ss)
  then obtain xs where "ss = py_sort_desc end_time xs"
    by (auto simp: load_all_summaries_try_def then_do_def split: sum.splits)
  with Inr show ?thesis by (simp add: load_all_summaries_def sorted_desc_py_sort)
qed

lemma summary_from_dict_scalar:
  "summary_from_dict JNull = Inl TypeError" "summary_from_dict (JNum n) = Inl TypeError"
  by (simp_all add: summary_from_dict_def get_str_def py_getitem_def then_do_def)

text \<open>
  Claim C2, as the code has it. \<^verbatim>\<open>create_session\<close> with memory enabled attaches exactly
  what \<^verbatim>\<open>get_session_summaries\<close> returns as \<^verbatim>\<open>previous_summaries\<close>, with memory disabled the
  empty list, and in no case changes the store. \<^verbatim>\<open>get_session_summaries\<close> always answers in
  descending order of \<^verbatim>\<open>end_time\<close>. On a summaries collection (a mapping) whose records all
  decode it returns all of them, as a multiset the decoded records; when some stored record
  does not decode it returns the empty list.
\<close>

theorem summaries_sorted_and_attached:
  "previous_summaries (fst (create_session uuid now True w)) = get_session_summaries w
   \<and> previous_summaries (fst (create_session uuid now False w)) = []
   \<and> snd (create_session uuid now mem w) = w
   \<and> sorted (rev (map end_time (get_session_summaries w)))
   \<and> (\<forall>d ss. load_summaries w = JObj d \<and> map summary_from_dict (map snd d) = map Inr ss
          \<longrightarrow> mset (get_session_summaries w) = mset ss)
   \<and> (\<forall>d. load_summaries w = JObj d
            \<and> (\<exists>v \<in> set (map snd d). \<exists>e. summary_from_dict v = Inl e)
          \<longrightarrow> get_session_summaries w = [])"
proof (intro conjI allI impI)
  show "previous_summaries (fst (create_session uuid now True w)) = get_session_summaries w"
    by (simp add: create_session_def get_session_summaries_def Let_def)
  show "previous_summaries (fst (create_session uuid now False w)) = []"
    by (simp add: create_session_def Let_def)
  show "snd (create_session uuid now mem w) = w"
    by (simp add: create_session_def Let_def)
  show "sorted (rev (map end_time (get_session_summaries w)))"
    by (simp add: get_session_summaries_def load_all_summaries_sorted)
next
  fix d ss
  assume "load_summaries w = JObj d \<and> map summary_from_dict (map snd d) = map Inr ss"
  then show "mset (get_session_summaries w) = mset ss"
    by (simp add: get_session_summaries_def load_all_summaries_decoded mset_py_sort)
next
  fix d
  assume "load_summaries w = JObj d
            \<and> (\<exists>v \<in> set (map snd d). \<exists>e. summary_from_dict v = Inl e)"
  then show "get_session_summaries w = []"
    by (simp add: get_session_summaries_def load_all_summaries_undecodable)
qed

theorem summaries_sorted_and_attached_witness:
  "get_session_summaries
     (store_of Missing
        (Doc (JObj
          [(''a'', summary_to_dict
              \<lparr> session_summary.session_id = ''a'', summary = ''first'', message_count = 3,
                session_summary.start_time = 10, end_time = 20 \<rparr>),
           (''b'', summary_to_dict
              \<lparr> session_summary.session_id = ''b'', summary = ''second'', message_count = 1,
                session_summary.start_time = 30, end_time = 40 \<rparr>)])))
   = [\<lparr> session_summary.session_id = ''b'', summary = ''second'', message_count = 1,
                session_summary.start_time = 30, end_time = 40 \<rparr>,
      \<lparr> session_summary.session_id = ''a'', summary = ''first'', message_count = 3,
                session_summary.start_time = 10, end_time = 20 \<rparr>]
   \<and> get_session_summaries (store_of Missing (Doc (JObj [(''z'', JNum 7)]))) = []
   \<and> previous_summaries (fst (create_session ''0123456789'' 50 False fresh_store)) = []"
  using summaries_sorted_and_attached
    [where w = "store_of Missing
        (Doc (JObj
          [(''a'', summary_to_dict
              \<lparr> session_summary.session_id = ''a'', summary = ''first'', message_count = 3,
                session_summary.start_time = 10, end_time = 20 \<rparr>),
           (''b'', summary_to_dict
              \<lparr> session_summary.session_id = ''b'', summary = ''second'', message_count = 1,
                session_summary.start_time = 30, end_time = 40 \<rparr>)]))"
       and uuid = "''0123456789''" and now = 50 and mem = False,
     THEN conjunct2, THEN conjunct2, THEN conjunct2, THEN conjunct2, THEN conjunct1,
     rule_format,
     of "[(''a'', summary_to_dict
              \<lparr> session_summary.session_id = ''a'', summary = ''first'', message_count = 3,
                session_summary.start_time = 10, end_time = 20 \<rparr>),
           (''b'', summary_to_dict
              \<lparr> session_summary.session_id = ''b'', summary = ''second'', message_count = 1,
                session_summary.start_time = 30, end_time = 40 \<rparr>)]"
        "[\<lparr> session_summary.session_id = ''a'', summary = ''first'', message_count = 3,
                session_summary.start_time = 10, end_time = 20 \<rparr>,
          \<lparr> session_summary.session_id = ''b'', summary = ''second'', message_count = 1,
                session_summary.start_time = 30, end_time = 40 \<rparr>]"]
    summaries_sorted_and_attached
    [where w = "store_of Missing (Doc (JObj [(''z'', JNum 7)]))"
       and uuid = "''0123456789''" and now = 50 and mem = False,
     THEN conjunct2, THEN conjunct2, THEN conjunct2, THEN conjunct2, THEN conjunct2,
     rule_format, of "[(''z'', JNum 7)]"]
  by (simp add: store_of_def fresh_store_def load_summaries_def load_collection_def read_json_def
      dict_of_pairs_def summary_roundtrip py_value_summary [unfolded py_value_def]
      get_session_summaries_def load_all_summaries_def load_all_summaries_try_def
      py_values_def then_do_def py_sort_desc_def create_session_def
      summary_from_dict_scalar)

text \<open>
  The claim has \<^verbatim>\<open>get_session_summaries\<close> return the full persisted collection for every
  store state. With the summaries \<open>{a: a valid record, b: null}\<close> stored, decoding \<open>b\<close> raises
  in \<^verbatim>\<open>_load_all_summaries\<close>, the exception is swallowed, and the result is the empty list,
  which \<^verbatim>\<open>create_session\<close> with memory enabled then attaches.
\<close>

theorem summaries_undecodable_counterexample:
  "load_summaries
     (store_of Missing
        (Doc (JObj
          [(''a'', summary_to_dict
              \<lparr> session_summary.session_id = ''a'', summary = ''first'', message_count = 3,
                session_summary.start_time = 10, end_time = 20 \<rparr>),
           (''b'', JNull)])))
   = JObj [(''a'', summary_to_dict
              \<lparr> session_summary.session_id = ''a'', summary = ''first'', message_count = 3,
                session_summary.start_time = 10, end_time = 20 \<rparr>),
           (''b'', JNull)]
   \<and> get_session_summaries
     (store_of Missing
        (Doc (JObj
          [(''a'', summary_to_dict
              \<lparr> session_summary.session_id = ''a'', summary = ''first'', message_count = 3,
                session_summary.start_time = 10, end_time = 20 \<rparr>),
           (''b'', JNull)])))
   = []
   \<and> previous_summaries (fst (create_session ''0123456789'' 50 True
     (store_of Missing
        (Doc (JObj
          [(''a'', summary_to_dict
              \<lparr> session_summary.session_id = ''a'', summary = ''first'', message_count = 3,
                session_summary.start_time = 10, end_time = 20 \<rparr>),
           (''b'', JNull)])))))
   = []"
  by (simp add: store_of_def load_summaries_def load_collection_def read_json_def
      dict_of_pairs_def summary_roundtrip py_value_summary [unfolded py_value_def]
      get_session_summaries_def load_all_summaries_def load_all_summaries_try_def
      py_values_def then_do_def create_session_def
      summary_from_dict_scalar)

section \<open>Statistics\<close>

lemma py_get_JObj: "py_get (JObj r) k dflt = Inr (dict_get r k dflt)"
  by (simp add: py_get_def)

lemma message_len_flags:
  "map message_len vals = map Inr lens
   \<Longrightarrow> \<exists>flags. traverse (\<lambda>s. py_get s ''is_active'' (JBool False)) vals = Inr flags"
proof (induction vals arbitrary: lens)
  case Nil
  then show ?case by simp
next
  case (Cons v vals)
  then obtain n lens' where "lens = n # lens'" "message_len v = Inr n"
      "map message_len vals = map Inr lens'"
    by (cases lens) auto
  from Cons.IH [OF this(3)] obtain flags where
    fl: "traverse (\<lambda>s. py_get s ''is_active'' (JBool False)) vals = Inr flags"
    by blast
  from \<open>message_len v = Inr n\<close> obtain r where "v = JObj r"
    by (cases v) (auto simp: message_len_def py_get_def then_do_def)
  then show ?case by (simp add: fl py_get_JObj)
qed

text \<open>
  Claim C9, as the code has it. \<^verbatim>\<open>get_storage_stats\<close> never raises. When the two collections
  are mappings and every session record is a dict whose \<^verbatim>\<open>messages\<close> have a length, it
  returns the five fields \<^verbatim>\<open>total_sessions\<close> (the number of stored sessions),
  \<^verbatim>\<open>active_sessions\<close> (the number of stored sessions whose \<^verbatim>\<open>is_active\<close> value is true),
  \<^verbatim>\<open>total_summaries\<close> (the number of stored summaries), \<^verbatim>\<open>total_messages\<close> (the sum of the
  message counts) and \<^verbatim>\<open>storage_path\<close> (the storage location). When its body raises it
  returns the empty dict.
\<close>

theorem storage_stats_fields:
  "(\<exists>st. get_storage_stats sm w = Inr st)
   \<and> (\<forall>d sd lens. load_sessions w = JObj d \<and> load_summaries w = JObj sd
          \<and> map message_len (map snd d) = map Inr lens \<longrightarrow>
        get_storage_stats sm w = Inr
          [(''total_sessions'', JNum (int (length d))),
           (''active_sessions'', JNum (int (length (filter record_active (map snd d))))),
           (''total_summaries'', JNum (int (length sd))),
           (''total_messages'', JNum (int (sum_list lens))),
           (''storage_path'', JStr (storage_path sm))])
   \<and> (\<forall>e. get_storage_stats_try sm w = Inl e \<longrightarrow> get_storage_stats sm w = Inr [])"
proof (intro conjI allI impI)
  show "\<exists>st. get_storage_stats sm w = Inr st"
    by (simp add: get_storage_stats_def except_return_Inr)
next
  fix d sd lens
  assume h: "load_sessions w = JObj d \<and> load_summaries w = JObj sd
          \<and> map message_len (map snd d) = map Inr lens"
  then obtain flags where
    f: "traverse (\<lambda>s. py_get s ''is_active'' (JBool False)) (map snd d) = Inr flags"
    using message_len_flags by blast
  have l: "traverse message_len (map snd d) = Inr lens"
    using h by (simp add: traverse_Inr_iff)
  show "get_storage_stats sm w = Inr
          [(''total_sessions'', JNum (int (length d))),
           (''active_sessions'', JNum (int (length (filter record_active (map snd d))))),
           (''total_summaries'', JNum (int (length sd))),
           (''total_messages'', JNum (int (sum_list lens))),
           (''storage_path'', JStr (storage_path sm))]"
    using h flags_count [OF f]
    by (simp add: get_storage_stats_def get_storage_stats_try_def py_values_def py_len_def
        then_do_def except_return_def f l)
next
  fix e assume "get_storage_stats_try sm w = Inl e"
  then show "get_storage_stats sm w = Inr []"
    by (simp add: get_storage_stats_def except_return_def)
qed

theorem storage_stats_fields_witness:
  "get_storage_stats \<lparr> storage_path = ''./sessions'', llm_service = fixed_summarizer [] \<rparr>
     (store_of
        (Doc (JObj
          [(''a'', JObj [(''is_active'', JBool True), (''messages'', JArr [JNull, JNull])]),
           (''b'', JObj [(''is_active'', JBool False), (''messages'', JArr [JNull])])]))
        (Doc (JObj [(''a'', JNull)])))
   = Inr [(''total_sessions'', JNum 2), (''active_sessions'', JNum 1),
          (''total_summaries'', JNum 1), (''total_messages'', JNum 3),
          (''storage_path'', JStr ''./sessions'')]
   \<and> get_storage_stats \<lparr> storage_path = ''./sessions'', llm_service = fixed_summarizer [] \<rparr>
     (store_of (Doc (JArr [])) Missing) = Inr []"
  using storage_stats_fields
    [of "\<lparr> storage_path = ''./sessions'', llm_service = fixed_summarizer [] \<rparr>"
        "store_of
        (Doc (JObj
          [(''a'', JObj [(''is_active'', JBool True), (''messages'', JArr [JNull, JNull])]),
           (''b'', JObj [(''is_active'', JBool False), (''messages'', JArr [JNull])])]))
        (Doc (JObj [(''a'', JNull)]))",
     THEN conjunct2, THEN conjunct1, rule_format,
     of "[(''a'', JObj [(''is_active'', JBool True), (''messages'', JArr [JNull, JNull])]),
           (''b'', JObj [(''is_active'', JBool False), (''messages'', JArr [JNull])])]"
        "[(''a'', JNull)]" "[2, 1]"]
    storage_stats_fields
    [of "\<lparr> storage_path = ''./sessions'', llm_service = fixed_summarizer [] \<rparr>"
        "store_of (Doc (JArr [])) Missing",
     THEN conjunct2, THEN conjunct2, rule_format, of AttributeError]
  by (simp add: store_of_def load_sessions_def load_summaries_def load_collection_def
      read_json_def dict_of_pairs_def message_len_def py_get_def py_len_def dict_get_def
      then_do_def record_active_def truthy_def get_storage_stats_try_def py_values_def)

text \<open>
  The claim names the fifth field \<^verbatim>\<open>storage_location\<close>. On a fresh store the result has the
  key \<^verbatim>\<open>storage_path\<close> and no key \<^verbatim>\<open>storage_location\<close>.
\<close>

theorem storage_stats_key_counterexample:
  "get_storage_stats \<lparr> storage_path = ''./sessions'', llm_service = fixed_summarizer [] \<rparr>
     fresh_store
   = Inr [(''total_sessions'', JNum 0), (''active_sessions'', JNum 0),
          (''total_summaries'', JNum 0), (''total_messages'', JNum 0),
          (''storage_path'', JStr ''./sessions'')]
   \<and> map_of [(''total_sessions'', JNum 0), (''active_sessions'', JNum 0),
          (''total_summaries'', JNum 0), (''total_messages'', JNum 0),
          (''storage_path'', JStr ''./sessions'')] ''storage_location'' = None"
  by (simp add: fresh_store_def get_storage_stats_def get_storage_stats_try_def
      load_sessions_def load_summaries_def load_collection_def py_values_def py_len_def
      then_do_def except_return_def)

section \<open>Closing a session\<close>

lemma decode_update:
  "distinct (map fst d) \<Longrightarrow> map f (map snd (AList.delete k d)) = map Inr rest \<Longrightarrow> f v = Inr x
   \<Longrightarrow> \<exists>ss. map f (map snd (AList.update k v d)) = map Inr ss \<and> mset ss = add_mset x (mset rest)"
proof (induction d arbitrary: rest)
  case Nil
  then show ?case by (intro exI [of _ "[x]"]) simp
next
  case (Cons p d)
  show ?case
  proof (cases "fst p = k")
    case True
    then have "k \<notin> fst ` set d" using Cons.prems(1) by auto
    then have "map f (map snd d) = map Inr rest"
      using Cons.prems(2) True by (cases p) simp
    then show ?thesis
      using True Cons.prems(3) by (cases p) (intro exI [of _ "x # rest"], simp)
  next
    case False
    then obtain r0 rest' where r: "rest = r0 # rest'" "f (snd p) = Inr r0"
        "map f (map snd (AList.delete k d)) = map Inr rest'"
      using Cons.prems(2) by (cases p; cases rest) auto
    from Cons.IH [OF _ r(3) Cons.prems(3)] Cons.prems(1)
    obtain ss where "map f (map snd (AList.update k v d)) = map Inr ss"
        "mset ss = add_mset x (mset rest')"
      by auto
    then show ?thesis
      using False r by (cases p) (intro exI [of _ "r0 # ss"], simp)
  qed
qed

lemmas eval_defs =
  close_session_def close_session_try_def save_summary_def save_session_def
  py_setitem_def write_summaries_def write_sessions_def write_json_def
  load_sessions_def load_summaries_def load_collection_def read_json_def
  fixed_summarizer_def summary_to_dict_def session_to_dict_def dict_of_pairs_def
  store_of_def fresh_store_def get_session_summaries_def load_all_summaries_def
  load_all_summaries_try_def py_values_def then_do_def py_sort_desc_def
  summary_from_dict_def get_str_def get_int_def get_time_def py_getitem_def ts_roundtrip

lemma set_delete_subset_update: "set (AList.delete k d) \<subseteq> set (AList.update k v d)"
proof (induction d)
  case Nil
  then show ?case by simp
next
  case (Cons p d)
  have "set (AList.delete k d) \<subseteq> set d" by (auto simp: AList.delete_eq)
  with Cons show ?case by (cases p) auto
qed

lemma close_session_success:
  assumes "close_session sm now s w = (s', Inr (Some x), w')"
  shows "s' = s\<lparr>is_active := False\<rparr>"
    and "x = \<lparr> session_summary.session_id = chat_session.session_id s,
               summary = projr (llm_service sm s'),
               message_count = int (length (messages s)),
               session_summary.start_time = chat_session.start_time s,
               end_time = now \<rparr>"
    and "\<exists>d. load_summaries w = JObj d
           \<and> load_summaries w'
               = JObj (AList.update (chat_session.session_id s) (summary_to_dict x) d)"
proof -
  let ?s = "s\<lparr>is_active := False\<rparr>"
  from assms have s': "s' = ?s"
    by (auto simp: close_session_def Let_def split: prod.splits sum.splits)
  from assms have body: "close_session_try sm now ?s w = (Inr x, w')"
    by (auto simp: close_session_def Let_def split: prod.splits sum.splits)
  then obtain tx where tx: "llm_service sm ?s = Inr tx"
    by (cases "llm_service sm ?s") (auto simp: close_session_try_def)
  let ?x = "\<lparr> session_summary.session_id = chat_session.session_id s,
               summary = tx, message_count = int (length (messages s)),
               session_summary.start_time = chat_session.start_time s, end_time = now \<rparr>"
  from body tx obtain w1 where
    w1: "save_summary ?x w = (Inr (), w1)" and
    w2: "save_session ?s w1 = (Inr (), w')" and x: "x = ?x"
    by (auto simp: close_session_try_def Let_def split: prod.splits sum.splits)
  from w1 obtain d where d: "load_summaries w = JObj d"
    by (cases "load_summaries w") (auto simp: save_summary_def py_setitem_def)
  let ?d' = "AList.update (chat_session.session_id s) (summary_to_dict ?x) d"
  from w1 d have w1_eq: "w1 = w\<lparr>summaries_file := Doc (JObj ?d')\<rparr>"
    by (cases "summaries_fault w")
       (auto simp: save_summary_def py_setitem_def write_summaries_def write_json_def)
  from w2 have "summaries_file w' = summaries_file w1"
    by (cases "load_sessions w1"; cases "sessions_fault w1")
       (auto simp: save_session_def py_setitem_def write_sessions_def write_json_def)
  moreover have "py_value (JObj ?d')"
    using py_value_summaries [of w] d by (simp add: py_value_update py_value_summary)
  ultimately have "load_summaries w' = JObj ?d'"
    by (simp add: load_summaries_def w1_eq load_collection_Doc)
  with d show "\<exists>d. load_summaries w = JObj d
           \<and> load_summaries w'
               = JObj (AList.update (chat_session.session_id s) (summary_to_dict x) d)"
    by (simp add: x)
  show "s' = s\<lparr>is_active := False\<rparr>" by (rule s')
  show "x = \<lparr> session_summary.session_id = chat_session.session_id s,
               summary = projr (llm_service sm s'),
               message_count = int (length (messages s)),
               session_summary.start_time = chat_session.start_time s,
               end_time = now \<rparr>"
    by (simp add: x s' tx)
qed

text \<open>
  Claim C1, as the code has it. When \<^verbatim>\<open>close_session\<close> succeeds, the session object has
  \<^verbatim>\<open>is_active\<close> false and the summary returned carries the session's id, the number of its
  messages, its start time, and the clock's reading as end time; the end time is at least
  the start time exactly when that reading is not earlier than the session's start time.
  Whatever the session's \<^verbatim>\<open>memory_enabled\<close>, the summaries collection afterwards is the old
  one with the summary put under the session's id. Afterwards \<^verbatim>\<open>get_session_summaries\<close>
  returns the new summary together with the other stored summaries, in descending order of
  end time, when those other records decode; when one of them does not decode it returns
  the empty list.
\<close>

theorem close_session_summary:
  "\<forall>s' x w'.
     close_session sm now s w = (s', Inr (Some x), w')
   \<longrightarrow> s' = s\<lparr>is_active := False\<rparr> \<and> is_active s' = False
     \<and> session_summary.session_id x = chat_session.session_id s
     \<and> message_count x = int (length (messages s))
     \<and> session_summary.start_time x = chat_session.start_time s
     \<and> end_time x = now
     \<and> (session_summary.start_time x \<le> end_time x) = (chat_session.start_time s \<le> now)
     \<and> (\<exists>d. load_summaries w = JObj d
          \<and> load_summaries w'
              = JObj (AList.update (chat_session.session_id s) (summary_to_dict x) d)
          \<and> (\<forall>rest. map summary_from_dict
                         (map snd (AList.delete (chat_session.session_id s) d)) = map Inr rest
                \<longrightarrow> mset (get_session_summaries w') = add_mset x (mset rest)
                    \<and> sorted (rev (map end_time (get_session_summaries w'))))
          \<and> ((\<exists>v \<in> set (map snd (AList.delete (chat_session.session_id s) d)).
                  \<exists>e. summary_from_dict v = Inl e)
                \<longrightarrow> get_session_summaries w' = []))"
proof (intro allI impI)
  fix s' x w'
  assume h: "close_session sm now s w = (s', Inr (Some x), w')"
  note cs = close_session_success [OF h]
  let ?sid = "chat_session.session_id s"
  from cs(3) obtain d where d: "load_summaries w = JObj d"
    and l: "load_summaries w' = JObj (AList.update ?sid (summary_to_dict x) d)"
    by blast
  have fields: "session_summary.session_id x = ?sid
     \<and> message_count x = int (length (messages s))
     \<and> session_summary.start_time x = chat_session.start_time s
     \<and> end_time x = now"
    by (subst cs(2), simp)+
  have dist: "distinct (map fst d)"
    using py_value_summaries [of w] d by (simp add: py_value_JObj)
  have ok: "\<forall>rest. map summary_from_dict (map snd (AList.delete ?sid d)) = map Inr rest
                \<longrightarrow> mset (get_session_summaries w') = add_mset x (mset rest)
                    \<and> sorted (rev (map end_time (get_session_summaries w')))"
  proof (intro allI impI)
    fix rest
    assume r: "map summary_from_dict (map snd (AList.delete ?sid d)) = map Inr rest"
    from decode_update [of d summary_from_dict ?sid rest "summary_to_dict x" x]
      dist r summary_roundtrip [of x]
    obtain ss where ss: "map summary_from_dict
         (map snd (AList.update ?sid (summary_to_dict x) d)) = map Inr ss"
      "mset ss = add_mset x (mset rest)"
      by auto
    have "get_session_summaries w' = py_sort_desc end_time ss"
      by (simp add: get_session_summaries_def load_all_summaries_decoded [OF l ss(1)])
    then show "mset (get_session_summaries w') = add_mset x (mset rest)
                    \<and> sorted (rev (map end_time (get_session_summaries w')))"
      by (simp add: mset_py_sort sorted_desc_py_sort ss(2))
  qed
  have bad: "(\<exists>v \<in> set (map snd (AList.delete ?sid d)). \<exists>e. summary_from_dict v = Inl e)
                \<longrightarrow> get_session_summaries w' = []"
  proof
    assume "\<exists>v \<in> set (map snd (AList.delete ?sid d)). \<exists>e. summary_from_dict v = Inl e"
    then have "\<exists>v \<in> set (map snd (AList.update ?sid (summary_to_dict x) d)).
        \<exists>e. summary_from_dict v = Inl e"
      using set_delete_subset_update [of ?sid d "summary_to_dict x"] by auto
    then show "get_session_summaries w' = []"
      by (simp add: get_session_summaries_def load_all_summaries_undecodable [OF l])
  qed
  show "s' = s\<lparr>is_active := False\<rparr> \<and> is_active s' = False
     \<and> session_summary.session_id x = chat_session.session_id s
     \<and> message_count x = int (length (messages s))
     \<and> session_summary.start_time x = chat_session.start_time s
     \<and> end_time x = now
     \<and> (session_summary.start_time x \<le> end_time x) = (chat_session.start_time s \<le> now)
     \<and> (\<exists>d. load_summaries w = JObj d
          \<and> load_summaries w'
              = JObj (AList.update (chat_session.session_id s) (summary_to_dict x) d)
          \<and> (\<forall>rest. map summary_from_dict
                         (map snd (AList.delete (chat_session.session_id s) d)) = map Inr rest
                \<longrightarrow> mset (get_session_summaries w') = add_mset x (mset rest)
                    \<and> sorted (rev (map end_time (get_session_summaries w'))))
          \<and> ((\<exists>v \<in> set (map snd (AList.delete (chat_session.session_id s) d)).
                  \<exists>e. summary_from_dict v = Inl e)
                \<longrightarrow> get_session_summaries w' = []))"
    using cs(1) fields d l ok bad by auto
qed

theorem close_session_summary_witness:
  "fst (snd (close_session
        \<lparr> storage_path = ''./sessions'', llm_service = fixed_summarizer ''talk'' \<rparr> 50
        \<lparr> chat_session.session_id = ''b'', messages = [], chat_session.start_time = 30,
          is_active = True, memory_enabled = False, previous_summaries = [] \<rparr>
        (store_of Missing
          (Doc (JObj [(''a'', summary_to_dict
              \<lparr> session_summary.session_id = ''a'', summary = ''first'', message_count = 3,
                session_summary.start_time = 10, end_time = 20 \<rparr>)])))))
   = Inr (Some \<lparr> session_summary.session_id = ''b'', summary = ''talk'', message_count = 0,
                session_summary.start_time = 30, end_time = 50 \<rparr>)
   \<and> get_session_summaries (snd (snd (close_session
        \<lparr> storage_path = ''./sessions'', llm_service = fixed_summarizer ''talk'' \<rparr> 50
        \<lparr> chat_session.session_id = ''b'', messages = [], chat_session.start_time = 30,
          is_active = True, memory_enabled = False, previous_summaries = [] \<rparr>
        (store_of Missing
          (Doc (JObj [(''a'', summary_to_dict
              \<lparr> session_summary.session_id = ''a'', summary = ''first'', message_count = 3,
                session_summary.start_time = 10, end_time = 20 \<rparr>)]))))))
   = [\<lparr> session_summary.session_id = ''b'', summary = ''talk'', message_count = 0,
                session_summary.start_time = 30, end_time = 50 \<rparr>,
      \<lparr> session_summary.session_id = ''a'', summary = ''first'', message_count = 3,
                session_summary.start_time = 10, end_time = 20 \<rparr>]"
  using close_session_summary
    [of "\<lparr> storage_path = ''./sessions'', llm_service = fixed_summarizer ''talk'' \<rparr>" 50
        "\<lparr> chat_session.session_id = ''b'', messages = [], chat_session.start_time = 30,
          is_active = True, memory_enabled = False, previous_summaries = [] \<rparr>"
        "store_of Missing
          (Doc (JObj [(''a'', summary_to_dict
              \<lparr> session_summary.session_id = ''a'', summary = ''first'', message_count = 3,
                session_summary.start_time = 10, end_time = 20 \<rparr>)]))",
     rule_format,
     of "\<lparr> chat_session.session_id = ''b'', messages = [], chat_session.start_time = 30,
          is_active = False, memory_enabled = False, previous_summaries = [] \<rparr>"
        "\<lparr> session_summary.session_id = ''b'', summary = ''talk'', message_count = 0,
                session_summary.start_time = 30, end_time = 50 \<rparr>"
        "snd (snd (close_session
        \<lparr> storage_path = ''./sessions'', llm_service = fixed_summarizer ''talk'' \<rparr> 50
        \<lparr> chat_session.session_id = ''b'', messages = [], chat_session.start_time = 30,
          is_active = True, memory_enabled = False, previous_summaries = [] \<rparr>
        (store_of Missing
          (Doc (JObj [(''a'', summary_to_dict
              \<lparr> session_summary.session_id = ''a'', summary = ''first'', message_count = 3,
                session_summary.start_time = 10, end_time = 20 \<rparr>)])))))"]
  by (simp add: eval_defs)

text \<open>
  The claim has \<^verbatim>\<open>end_time\<close> at least \<^verbatim>\<open>start_time\<close> for every session, and the summary
  returned by \<^verbatim>\<open>get_session_summaries\<close> after every successful close. A session whose start
  time is ahead of the clock's reading at close (the wall clock was set back in between) is
  closed successfully with an end time before its start time. And with the summaries
  \<open>{z: null}\<close> stored, the close succeeds and stores the new summary beside \<open>z\<close>, yet
  \<^verbatim>\<open>get_session_summaries\<close> afterwards is the empty list: decoding \<open>z\<close> raises and the
  exception is swallowed.
\<close>

theorem close_session_counterexample:
  "fst (snd (close_session
        \<lparr> storage_path = ''./sessions'', llm_service = fixed_summarizer ''talk'' \<rparr> 5
        \<lparr> chat_session.session_id = ''a'', messages = [], chat_session.start_time = 10,
          is_active = True, memory_enabled = False, previous_summaries = [] \<rparr>
        fresh_store))
   = Inr (Some \<lparr> session_summary.session_id = ''a'', summary = ''talk'', message_count = 0,
                session_summary.start_time = 10, end_time = 5 \<rparr>)
   \<and> end_time \<lparr> session_summary.session_id = ''a'', summary = ''talk'', message_count = 0,
                session_summary.start_time = 10, end_time = 5 \<rparr>
     < session_summary.start_time
         \<lparr> session_summary.session_id = ''a'', summary = ''talk'', message_count = 0,
                session_summary.start_time = 10, end_time = 5 \<rparr>
   \<and> fst (snd (close_session
        \<lparr> storage_path = ''./sessions'', llm_service = fixed_summarizer ''talk'' \<rparr> 50
        \<lparr> chat_session.session_id = ''b'', messages = [], chat_session.start_time = 30,
          is_active = True, memory_enabled = False, previous_summaries = [] \<rparr>
        (store_of Missing (Doc (JObj [(''z'', JNull)])))))
   = Inr (Some \<lparr> session_summary.session_id = ''b'', summary = ''talk'', message_count = 0,
                session_summary.start_time = 30, end_time = 50 \<rparr>)
   \<and> get_session_summaries (snd (snd (close_session
        \<lparr> storage_path = ''./sessions'', llm_service = fixed_summarizer ''talk'' \<rparr> 50
        \<lparr> chat_session.session_id = ''b'', messages = [], chat_session.start_time = 30,
          is_active = True, memory_enabled = False, previous_summaries = [] \<rparr>
        (store_of Missing (Doc (JObj [(''z'', JNull)]))))))
   = []"
  by (simp add: eval_defs)

section \<open>Cleanup\<close>

lemma start_time_keys:
  "list_all textual_start_time (map snd d)
   \<Longrightarrow> traverse start_time_key d = Inr (map (\<lambda>p. JStr (raw_start_time (snd p))) d)"
proof (induction d)
  case Nil
  then show ?case by simp
next
  case (Cons p d)
  then obtain r where r: "snd p = JObj r" "is_str (dict_get r ''start_time'' (JStr []))"
    by (cases "snd p") (auto simp: textual_start_time_def)
  then obtain t where "dict_get r ''start_time'' (JStr []) = JStr t"
    by (cases "dict_get r ''start_time'' (JStr [])") (auto simp: is_str_def)
  with r Cons show ?case
    by (simp add: start_time_key_def py_get_JObj raw_start_time_def str_val_def)
qed

lemma insort_key_map:
  "insort_key f (g x) (map g xs) = map g (insort_key (\<lambda>y. f (g y)) x xs)"
  by (induction xs) auto

lemma sort_key_map: "sort_key f (map g xs) = map g (sort_key (\<lambda>y. f (g y)) xs)"
  by (induction xs) (auto simp: insort_key_map)

lemma py_sort_desc_map: "py_sort_desc f (map g xs) = map g (py_sort_desc (\<lambda>y. f (g y)) xs)"
  by (simp add: py_sort_desc_def rev_map sort_key_map)

lemma zip_map_self: "zip (map h xs) xs = map (\<lambda>x. (h x, x)) xs"
  by (induction xs) auto

lemma py_sort_desc_short: "length xs < 2 \<Longrightarrow> py_sort_desc f xs = xs"
  by (cases xs; cases "tl xs") (auto simp: py_sort_desc_def)

lemma sort_by_start_time_textual:
  assumes "list_all textual_start_time (map snd d)"
  shows "sort_by_start_time d = Inr (py_sort_desc (\<lambda>p. raw_start_time (snd p)) d)"
proof -
  let ?keys = "map (\<lambda>p. JStr (raw_start_time (snd p))) d"
  have k: "traverse start_time_key d = Inr ?keys"
    using assms by (rule start_time_keys)
  have s: "list_all is_str ?keys"
    by (simp add: list_all_iff is_str_def)
  have "map snd (py_sort_desc (\<lambda>p. str_val (fst p)) (zip ?keys d))
          = py_sort_desc (\<lambda>p. raw_start_time (snd p)) d"
    by (simp add: zip_map_self py_sort_desc_map str_val_def comp_def)
  then show ?thesis
    using s by (simp add: sort_by_start_time_def k then_do_def py_sort_desc_short)
qed

lemma sorted_desc_take_drop:
  assumes "sorted (rev (map f xs))"
  shows "\<forall>x \<in> set (take n xs). \<forall>y \<in> set (drop n xs). f y \<le> f x"
proof -
  have "rev (map f xs) = rev (map f (drop n xs)) @ rev (map f (take n xs))"
    by (metis append_take_drop_id map_append rev_append)
  with assms have "sorted (rev (map f (drop n xs)) @ rev (map f (take n xs)))" by simp
  then show ?thesis by (auto simp: sorted_append)
qed

lemma pop_all_JObj: "pop_all ks (JObj sd) = Inr (JObj (filter (\<lambda>p. fst p \<notin> set ks) sd))"
proof (induction ks arbitrary: sd)
  case Nil
  then show ?case by simp
next
  case (Cons k ks)
  have "filter (\<lambda>p. fst p \<notin> set ks) (AList.delete k sd) = filter (\<lambda>p. fst p \<notin> set (k # ks)) sd"
    by (induction sd) auto
  then show ?case by (simp add: py_pop_def then_do_def Cons)
qed

lemma py_value_sub:
  "py_value (JObj d) \<Longrightarrow> set kept \<subseteq> set d \<Longrightarrow> distinct (map fst kept) \<Longrightarrow> py_value (JObj kept)"
  by (auto simp: py_value_JObj)

lemma distinct_keys_sorted: "distinct (map fst d) \<Longrightarrow> distinct (map fst (py_sort_desc f d))"
proof -
  assume "distinct (map fst d)"
  moreover have "mset (map fst (py_sort_desc f d)) = mset (map fst d)"
    by (simp add: mset_py_sort)
  ultimately show ?thesis by (metis mset_eq_imp_distinct_iff)
qed

lemma set_py_sort: "set (py_sort_desc f d) = set d"
  by (simp add: py_sort_desc_def)

lemma cleanup_run:
  assumes "load_sessions w = JObj d" "load_summaries w = JObj sd"
    and "list_all textual_start_time (map snd d)"
    and "sessions_fault w = NoFault" "summaries_fault w = NoFault"
    and "0 \<le> N" "N < int (length d)"
  shows "cleanup_old_sessions N w =
     (Inr (),
      w\<lparr>sessions_file := Doc (JObj (take (nat N) (py_sort_desc (\<lambda>p. raw_start_time (snd p)) d))),
        summaries_file := Doc (JObj (filter
           (\<lambda>p. fst p \<notin> fst ` (set d - set (take (nat N) (py_sort_desc (\<lambda>p. raw_start_time (snd p)) d))))
           sd))\<rparr>)"
proof -
  let ?sorted = "py_sort_desc (\<lambda>p. raw_start_time (snd p)) d"
  let ?kept = "take (nat N) ?sorted"
  have dist: "distinct (map fst d)"
    using py_value_sessions [of w] assms(1) by (simp add: py_value_JObj)
  then have ds: "distinct (map fst ?sorted)" by (rule distinct_keys_sorted)
  then have dk: "distinct (map fst ?kept)"
    by (simp add: take_map [symmetric])
  have keep: "dict_of_pairs (py_slice_to N ?sorted) = ?kept"
    using assms(6) dk by (simp add: py_slice_to_def dict_of_pairs_distinct)
  have "set (filter (\<lambda>k. k \<notin> set (map fst ?kept)) (map fst ?sorted))
          = fst ` (set d - set ?kept)"
  proof -
    have "\<And>p. p \<in> set d \<Longrightarrow> fst p \<in> fst ` set ?kept \<Longrightarrow> p \<in> set ?kept"
    proof -
      fix p assume p: "p \<in> set d" "fst p \<in> fst ` set ?kept"
      then obtain q where q: "q \<in> set ?kept" "fst q = fst p" by auto
      then have "q \<in> set d" using set_py_sort [of "\<lambda>p. raw_start_time (snd p)" d]
        by (metis in_set_takeD)
      with p q dist have "q = p" by (metis eq_key_imp_eq_value prod.collapse)
      with q show "p \<in> set ?kept" by simp
    qed
    then show ?thesis by (auto simp: set_py_sort) 
  qed
  then have flt: "filter (\<lambda>p. fst p \<notin> set (filter (\<lambda>k. k \<notin> set (map fst ?kept)) (map fst ?sorted))) sd
      = filter (\<lambda>p. fst p \<notin> fst ` (set d - set ?kept)) sd"
    by simp
  show ?thesis
    using assms
    by (simp add: cleanup_old_sessions_def cleanup_old_sessions_try_def Let_def py_len_def
        py_items_def then_do_def sort_by_start_time_textual keep write_sessions_def
        write_summaries_def write_json_def pop_all_JObj flt except_return_def
        del: set_filter set_map)
qed

lemmas cleanup_defs =
  cleanup_old_sessions_def cleanup_old_sessions_try_def py_len_def py_items_def
  sort_by_start_time_def start_time_key_def py_get_def dict_get_def is_str_def is_num_def
  str_val_def py_slice_to_def py_pop_def except_return_def

text \<open>
  Claim C3. Take a store whose two collections are mappings, whose session records are
  dicts with a textual (or missing) \<^verbatim>\<open>start_time\<close>, and whose files can be written, and a
  \<^verbatim>\<open>keep_count\<close> \<open>N\<close> that is not negative and smaller than the number of stored sessions.
  After \<^verbatim>\<open>cleanup_old_sessions\<close> the sessions collection holds exactly \<open>N\<close> of the old entries,
  each with a raw \<^verbatim>\<open>start_time\<close> string at least that of every removed entry, and the
  summaries collection is the old one without the entries keyed by the removed ids, the
  others in place.
\<close>

theorem cleanup_keeps_most_recent:
  "\<forall>d sd. load_sessions w = JObj d \<and> load_summaries w = JObj sd
      \<and> list_all textual_start_time (map snd d)
      \<and> sessions_fault w = NoFault \<and> summaries_fault w = NoFault
      \<and> 0 \<le> N \<and> N < int (length d)
    \<longrightarrow> (\<exists>kept. load_sessions (snd (cleanup_old_sessions N w)) = JObj kept
          \<and> int (length kept) = N
          \<and> set kept \<subseteq> set d
          \<and> (\<forall>p \<in> set kept. \<forall>q \<in> set d - set kept.
                raw_start_time (snd q) \<le> raw_start_time (snd p))
          \<and> load_summaries (snd (cleanup_old_sessions N w))
              = JObj (filter (\<lambda>p. fst p \<notin> fst ` (set d - set kept)) sd))"
proof (intro allI impI)
  fix d sd
  assume h: "load_sessions w = JObj d \<and> load_summaries w = JObj sd
      \<and> list_all textual_start_time (map snd d)
      \<and> sessions_fault w = NoFault \<and> summaries_fault w = NoFault
      \<and> 0 \<le> N \<and> N < int (length d)"
  let ?sorted = "py_sort_desc (\<lambda>p. raw_start_time (snd p)) d"
  let ?kept = "take (nat N) ?sorted"
  let ?sd' = "filter (\<lambda>p. fst p \<notin> fst ` (set d - set ?kept)) sd"
  have run: "cleanup_old_sessions N w =
     (Inr (), w\<lparr>sessions_file := Doc (JObj ?kept), summaries_file := Doc (JObj ?sd')\<rparr>)"
    using h by (intro cleanup_run) simp_all
  have pd: "py_value (JObj d)" using py_value_sessions [of w] h by simp
  have psd: "py_value (JObj sd)" using py_value_summaries [of w] h by simp
  have sub: "set ?kept \<subseteq> set d"
    using set_take_subset [of "nat N" ?sorted] by (simp add: set_py_sort)
  have "distinct (map fst ?sorted)"
    using pd by (simp add: py_value_JObj distinct_keys_sorted)
  then have dk: "distinct (map fst ?kept)" by (simp add: take_map [symmetric])
  have pk: "py_value (JObj ?kept)" by (rule py_value_sub [OF pd sub dk])
  have "distinct (map fst ?sd')"
    using psd by (simp add: py_value_JObj distinct_map_filter)
  then have ps: "py_value (JObj ?sd')"
    by (intro py_value_sub [OF psd]) auto
  have l1: "load_sessions (snd (cleanup_old_sessions N w)) = JObj ?kept"
    by (simp add: run load_sessions_def load_collection_Doc [OF pk])
  have l2: "load_summaries (snd (cleanup_old_sessions N w)) = JObj ?sd'"
    by (simp add: run load_summaries_def load_collection_Doc [OF ps])
  have len: "int (length ?kept) = N"
    using h by (auto simp: py_sort_desc_def min_def)
  have "sorted (rev (map (\<lambda>p. raw_start_time (snd p)) ?sorted))"
    by (rule sorted_desc_py_sort)
  then have td: "\<forall>x \<in> set ?kept. \<forall>y \<in> set (drop (nat N) ?sorted).
        raw_start_time (snd y) \<le> raw_start_time (snd x)"
    by (rule sorted_desc_take_drop)
  have "set d - set ?kept \<subseteq> set (drop (nat N) ?sorted)"
    using set_py_sort [of "\<lambda>p. raw_start_time (snd p)" d]
      append_take_drop_id [of "nat N" ?sorted]
    by (metis Diff_subset_conv set_append subset_refl)
  with td have ord: "\<forall>p \<in> set ?kept. \<forall>q \<in> set d - set ?kept.
                raw_start_time (snd q) \<le> raw_start_time (snd p)"
    by blast
  show "\<exists>kept. load_sessions (snd (cleanup_old_sessions N w)) = JObj kept
          \<and> int (length kept) = N
          \<and> set kept \<subseteq> set d
          \<and> (\<forall>p \<in> set kept. \<forall>q \<in> set d - set kept.
                raw_start_time (snd q) \<le> raw_start_time (snd p))
          \<and> load_summaries (snd (cleanup_old_sessions N w))
              = JObj (filter (\<lambda>p. fst p \<notin> fst ` (set d - set kept)) sd)"
    using l1 l2 len sub ord by (intro exI [of _ ?kept]) simp
qed

theorem cleanup_keeps_most_recent_witness:
  "load_sessions (snd (cleanup_old_sessions 3
     (store_of
        (Doc (JObj
          [(''a'', JObj [(''start_time'', JStr ''2024-01-01'')]),
           (''b'', JObj [(''start_time'', JStr ''2024-01-03'')]),
           (''c'', JObj [(''start_time'', JStr ''2024-01-05'')]),
           (''d'', JObj [(''start_time'', JStr ''2024-01-02'')]),
           (''e'', JObj [(''start_time'', JStr ''2024-01-04'')])]))
        (Doc (JObj [(''a'', JNull), (''d'', JNull), (''c'', JNull), (''z'', JNull)])))))
   = JObj [(''c'', JObj [(''start_time'', JStr ''2024-01-05'')]),
           (''e'', JObj [(''start_time'', JStr ''2024-01-04'')]),
           (''b'', JObj [(''start_time'', JStr ''2024-01-03'')])]
   \<and> load_summaries (snd (cleanup_old_sessions 3
     (store_of
        (Doc (JObj
          [(''a'', JObj [(''start_time'', JStr ''2024-01-01'')]),
           (''b'', JObj [(''start_time'', JStr ''2024-01-03'')]),
           (''c'', JObj [(''start_time'', JStr ''2024-01-05'')]),
           (''d'', JObj [(''start_time'', JStr ''2024-01-02'')]),
           (''e'', JObj [(''start_time'', JStr ''2024-01-04'')])]))
        (Doc (JObj [(''a'', JNull), (''d'', JNull), (''c'', JNull), (''z'', JNull)])))))
   = JObj [(''c'', JNull), (''z'', JNull)]"
  using cleanup_keeps_most_recent
    [of "store_of
        (Doc (JObj
          [(''a'', JObj [(''start_time'', JStr ''2024-01-01'')]),
           (''b'', JObj [(''start_time'', JStr ''2024-01-03'')]),
           (''c'', JObj [(''start_time'', JStr ''2024-01-05'')]),
           (''d'', JObj [(''start_time'', JStr ''2024-01-02'')]),
           (''e'', JObj [(''start_time'', JStr ''2024-01-04'')])]))
        (Doc (JObj [(''a'', JNull), (''d'', JNull), (''c'', JNull), (''z'', JNull)]))" 3,
     rule_format,
     of "[(''a'', JObj [(''start_time'', JStr ''2024-01-01'')]),
           (''b'', JObj [(''start_time'', JStr ''2024-01-03'')]),
           (''c'', JObj [(''start_time'', JStr ''2024-01-05'')]),
           (''d'', JObj [(''start_time'', JStr ''2024-01-02'')]),
           (''e'', JObj [(''start_time'', JStr ''2024-01-04'')])]"
        "[(''a'', JNull), (''d'', JNull), (''c'', JNull), (''z'', JNull)]"]
  by (simp add: eval_defs cleanup_defs)

text \<open>
  Claim C4, as the code has it. \<^verbatim>\<open>cleanup_old_sessions\<close> never raises. It leaves storage as
  it is when the number of stored sessions is at most \<^verbatim>\<open>keep_count\<close>, and also when it fails
  before the sessions file is rewritten: when the sessions cannot be counted or ranked, or
  when the sessions file cannot be opened for writing.
\<close>

theorem cleanup_failure_containment:
  "(\<exists>w'. cleanup_old_sessions k w = (Inr (), w'))
   \<and> (\<forall>n. py_len (load_sessions w) = Inr n \<and> int n \<le> k
          \<longrightarrow> cleanup_old_sessions k w = (Inr (), w))
   \<and> ((\<exists>e. py_len (load_sessions w) = Inl e)
        \<or> (\<exists>e. then_do (py_items (load_sessions w)) sort_by_start_time = Inl e)
        \<or> sessions_fault w = OpenFails
      \<longrightarrow> cleanup_old_sessions k w = (Inr (), w))"
proof (intro conjI allI impI)
  show "\<exists>w'. cleanup_old_sessions k w = (Inr (), w')"
    by (cases "cleanup_old_sessions_try k w"; cases "fst (cleanup_old_sessions_try k w)")
       (auto simp: cleanup_old_sessions_def except_return_def)
next
  fix n assume "py_len (load_sessions w) = Inr n \<and> int n \<le> k"
  then show "cleanup_old_sessions k w = (Inr (), w)"
    by (simp add: cleanup_old_sessions_def cleanup_old_sessions_try_def Let_def
        except_return_def)
next
  assume h: "(\<exists>e. py_len (load_sessions w) = Inl e)
        \<or> (\<exists>e. then_do (py_items (load_sessions w)) sort_by_start_time = Inl e)
        \<or> sessions_fault w = OpenFails"
  show "cleanup_old_sessions k w = (Inr (), w)"
  proof (cases "py_len (load_sessions w)")
    case (Inl e)
    then show ?thesis
      by (simp add: cleanup_old_sessions_def cleanup_old_sessions_try_def Let_def
          except_return_def)
  next
    case n: (Inr n)
    show ?thesis
    proof (cases "then_do (py_items (load_sessions w)) sort_by_start_time")
      case (Inl e)
      then show ?thesis
        using n by (simp add: cleanup_old_sessions_def cleanup_old_sessions_try_def Let_def
          except_return_def)
    next
      case (Inr items)
      with n h have "sessions_fault w = OpenFails" by auto
      then show ?thesis
        using n Inr by (simp add: cleanup_old_sessions_def cleanup_old_sessions_try_def Let_def
          except_return_def write_sessions_def write_json_def)
    qed
  qed
qed

theorem cleanup_failure_containment_witness:
  "cleanup_old_sessions 5
     (store_of
        (Doc (JObj
          [(''a'', JObj [(''start_time'', JStr ''2024-01-01'')]),
           (''b'', JObj [(''start_time'', JStr ''2024-01-02'')])]))
        (Doc (JObj [(''a'', JNull), (''b'', JNull)])))
   = (Inr (),
      store_of
        (Doc (JObj
          [(''a'', JObj [(''start_time'', JStr ''2024-01-01'')]),
           (''b'', JObj [(''start_time'', JStr ''2024-01-02'')])]))
        (Doc (JObj [(''a'', JNull), (''b'', JNull)])))
   \<and> cleanup_old_sessions 1
     (store_of
        (Doc (JObj
          [(''a'', JObj [(''start_time'', JStr ''2024-01-01'')]),
           (''b'', JObj [(''start_time'', JStr ''2024-01-02'')])]))
        (Doc (JObj [(''a'', JNull), (''b'', JNull)]))
      \<lparr> sessions_fault := OpenFails \<rparr>)
   = (Inr (),
      store_of
        (Doc (JObj
          [(''a'', JObj [(''start_time'', JStr ''2024-01-01'')]),
           (''b'', JObj [(''start_time'', JStr ''2024-01-02'')])]))
        (Doc (JObj [(''a'', JNull), (''b'', JNull)]))
      \<lparr> sessions_fault := OpenFails \<rparr>)"
  using cleanup_failure_containment
    [of 5 "store_of
        (Doc (JObj
          [(''a'', JObj [(''start_time'', JStr ''2024-01-01'')]),
           (''b'', JObj [(''start_time'', JStr ''2024-01-02'')])]))
        (Doc (JObj [(''a'', JNull), (''b'', JNull)]))",
     THEN conjunct2, THEN conjunct1, rule_format, of 2]
    cleanup_failure_containment
    [of 1 "store_of
        (Doc (JObj
          [(''a'', JObj [(''start_time'', JStr ''2024-01-01'')]),
           (''b'', JObj [(''start_time'', JStr ''2024-01-02'')])]))
        (Doc (JObj [(''a'', JNull), (''b'', JNull)]))
      \<lparr> sessions_fault := OpenFails \<rparr>",
     THEN conjunct2, THEN conjunct2]
  by (simp add: store_of_def load_sessions_def load_collection_def read_json_def
      dict_of_pairs_def py_len_def)

text \<open>
  The claim has every failed cleanup leave both collections untouched. The two files are
  rewritten one after the other: when the summaries file cannot be opened for writing, the
  cleanup fails (the error is swallowed) after the sessions collection has been cut down, and
  the summaries of the removed sessions stay.
\<close>

theorem cleanup_not_atomic_counterexample:
  "fst (cleanup_old_sessions_try 1
     (store_of
        (Doc (JObj
          [(''a'', JObj [(''start_time'', JStr ''2024-01-01'')]),
           (''b'', JObj [(''start_time'', JStr ''2024-01-02'')])]))
        (Doc (JObj [(''a'', JNull), (''b'', JNull)]))
      \<lparr> summaries_fault := OpenFails \<rparr>)) = Inl OSError
   \<and> sessions_file (snd (cleanup_old_sessions 1
     (store_of
        (Doc (JObj
          [(''a'', JObj [(''start_time'', JStr ''2024-01-01'')]),
           (''b'', JObj [(''start_time'', JStr ''2024-01-02'')])]))
        (Doc (JObj [(''a'', JNull), (''b'', JNull)]))
      \<lparr> summaries_fault := OpenFails \<rparr>)))
     = Doc (JObj [(''b'', JObj [(''start_time'', JStr ''2024-01-02'')])])
   \<and> summaries_file (snd (cleanup_old_sessions 1
     (store_of
        (Doc (JObj
          [(''a'', JObj [(''start_time'', JStr ''2024-01-01'')]),
           (''b'', JObj [(''start_time'', JStr ''2024-01-02'')])]))
        (Doc (JObj [(''a'', JNull), (''b'', JNull)]))
      \<lparr> summaries_fault := OpenFails \<rparr>)))
     = Doc (JObj [(''a'', JNull), (''b'', JNull)])"
  by (simp add: eval_defs cleanup_defs)

end
